theory Spec2Isabelle
  imports Main "HOL-Library.AList"
begin

section \<open>Python values used by the crawler\<close>

text \<open>
  The exceptions that the modelled code can raise. \<open>NoUserInput\<close> is not a Python
  exception: it marks an interactive prompt for which the user script holds no answer
  (the call blocks). \<open>EvalNotModelled\<close> marks source text handed to \<open>eval\<close> whose
  meaning lies outside the fragment of Python syntax modelled below.
\<close>

datatype error =
    HashCollision
  | UnboundLocalError
  | AttributeError
  | IntegrityError
  | KeyError
  | IndexError
  | TypeError
  | SyntaxError
  | EvalNotModelled
  | NoUserInput
  | ClassifierFailure

text \<open>
  A timezone-aware UTC \<open>datetime\<close>. The controller converts both bounds with
  \<open>astimezone(pytz.UTC)\<close> and Telethon delivers message dates in UTC, so comparing two
  values is comparing their fields lexicographically.
\<close>

record datetime =
  year :: nat
  month :: nat
  day :: nat
  hour :: nat
  minute :: nat
  second :: nat
  microsecond :: nat

fun lex_less :: "nat list \<Rightarrow> nat list \<Rightarrow> bool" where
  "lex_less [] _ = False"
| "lex_less (x # xs) [] = False"
| "lex_less (x # xs) (y # ys) = (x < y \<or> (x = y \<and> lex_less xs ys))"

definition dt_fields :: "datetime \<Rightarrow> nat list" where
  "dt_fields d = [year d, month d, day d, hour d, minute d, second d, microsecond d]"

definition dt_less :: "datetime \<Rightarrow> datetime \<Rightarrow> bool" where
  "dt_less a b = lex_less (dt_fields a) (dt_fields b)"

text \<open>\<open>str(datetime)\<close>: ISO format with a blank separator; the fraction is printed only
  when the microseconds are not zero; the offset of UTC is \<open>+00:00\<close>.\<close>

definition digit_char :: "nat \<Rightarrow> char" where
  "digit_char n = (''0123456789'' ! (n mod 10))"

definition pad2 :: "nat \<Rightarrow> string" where
  "pad2 n = [digit_char (n div 10), digit_char n]"

definition pad4 :: "nat \<Rightarrow> string" where
  "pad4 n = [digit_char (n div 1000), digit_char (n div 100), digit_char (n div 10), digit_char n]"

definition pad6 :: "nat \<Rightarrow> string" where
  "pad6 n = [digit_char (n div 100000), digit_char (n div 10000), digit_char (n div 1000),
             digit_char (n div 100), digit_char (n div 10), digit_char n]"

definition str_datetime :: "datetime \<Rightarrow> string" where
  "str_datetime d =
     pad4 (year d) @ ''-'' @ pad2 (month d) @ ''-'' @ pad2 (day d) @ '' '' @
     pad2 (hour d) @ '':'' @ pad2 (minute d) @ '':'' @ pad2 (second d) @
     (if microsecond d = 0 then [] else ''.'' @ pad6 (microsecond d)) @ ''+00:00''"

text \<open>\<open>str(x)\<close> for an optional value: \<open>str(None)\<close> is the text \<open>None\<close>.\<close>

definition str_opt :: "('a \<Rightarrow> string) \<Rightarrow> 'a option \<Rightarrow> string" where
  "str_opt f v = (case v of None \<Rightarrow> ''None'' | Some x \<Rightarrow> f x)"

text \<open>Python's \<open>needle in haystack\<close> on strings: a contiguous, case-sensitive match.\<close>

fun is_prefix_of :: "'a list \<Rightarrow> 'a list \<Rightarrow> bool" where
  "is_prefix_of [] _ = True"
| "is_prefix_of (x # xs) [] = False"
| "is_prefix_of (x # xs) (y # ys) = (x = y \<and> is_prefix_of xs ys)"

fun str_contains :: "'a list \<Rightarrow> 'a list \<Rightarrow> bool" where
  "str_contains needle [] = (needle = [])"
| "str_contains needle (c # cs) = (is_prefix_of needle (c # cs) \<or> str_contains needle cs)"

section \<open>Telethon messages\<close>

datatype webpage = WebPageEmpty | WebPage (netloc: string)

datatype media = MessageMediaPoll | MessageMediaWebPage webpage | OtherMedia

record fwd_header =
  fwd_from_channel :: "int option"
  fwd_channel_post :: "int option"
  fwd_date :: datetime

record telethon_message =
  tm_id :: int
  tm_peer_channel :: int
  tm_message :: "string option"
  tm_date :: datetime
  tm_media :: "media option"
  tm_fwd_from :: "fwd_header option"
  tm_views :: "int option"
  tm_forwards :: "int option"

section \<open>Skip and stop policies of the baseline and keyword crawlers\<close>

text \<open>\<open>BaselineCrawler.crawl_should_be_stopped\<close>\<close>

definition baseline_crawl_should_be_stopped ::
  "telethon_message \<Rightarrow> datetime option \<Rightarrow> datetime option \<Rightarrow> bool" where
  "baseline_crawl_should_be_stopped message min_date max_date =
     (case min_date of None \<Rightarrow> False | Some lo \<Rightarrow> dt_less (tm_date message) lo)"

text \<open>\<open>BaselineCrawler.message_should_be_skipped\<close>; the result is used as a truth value.\<close>

definition baseline_message_should_be_skipped ::
  "telethon_message \<Rightarrow> datetime option \<Rightarrow> datetime option \<Rightarrow> bool" where
  "baseline_message_should_be_skipped message min_date max_date =
     (tm_message message = None
      \<or> (case max_date of None \<Rightarrow> False | Some hi \<Rightarrow> dt_less hi (tm_date message))
      \<or> (case tm_media message of None \<Rightarrow> False | Some m \<Rightarrow> m = MessageMediaPoll))"

text \<open>The \<open>for keyword in self.keywords\<close> loop of
  \<open>KeywordSearchCrawler.message_should_be_skipped\<close>.\<close>

fun keyword_loop :: "string list \<Rightarrow> string \<Rightarrow> bool" where
  "keyword_loop [] text = True"
| "keyword_loop (keyword # keywords) text =
     (if str_contains keyword text then False else keyword_loop keywords text)"

definition keyword_message_should_be_skipped ::
  "string list \<Rightarrow> telethon_message \<Rightarrow> datetime option \<Rightarrow> datetime option \<Rightarrow> bool" where
  "keyword_message_should_be_skipped keywords message min_date max_date =
     (if baseline_message_should_be_skipped message min_date max_date then True
      else (case tm_message message of
              None \<Rightarrow> True
            | Some text \<Rightarrow> keyword_loop keywords text))"

section \<open>The message store\<close>

text \<open>
  The peewee tables as lists of rows, in insertion order. A \<open>TelegramMessage\<close> row has a
  non-null \<open>chat\<close>; the object built from a fetched message has \<open>chat = None\<close> when the
  chat could not be resolved, so the field's type is a parameter. Topics and
  misconceptions are their primary keys. The \<open>added\<close> columns (time stamps defaulting to
  the clock) are left out, and foreign keys are not enforced, as in SQLite's default.
\<close>

type_synonym topic = nat
type_synonym misconception = nat

record 'c telegram_message =
  chat :: 'c
  message_id :: int
  content :: string
  url :: "string option"
  hash :: string
  creation_date :: datetime
  last_retrieved :: string
  views :: "int option"
  forwards :: "int option"

record world =
  chats :: "int list"
  messages :: "int telegram_message list"
  message_topics :: "(int \<times> string \<times> topic) list"
  message_misconceptions :: "(int \<times> string \<times> misconception option) list"
  messages_to_skip :: "(string \<times> int) list"
  marked_for_later :: "(int \<times> int list) list"

text \<open>
  The collaborators outside the repository's code: the configured fingerprint function
  (SHA-256 truncated to \<open>hash_size\<close>), the network's answer to a chat metadata request, and
  the clock reading used for \<open>last_retrieved\<close>.
\<close>

datatype metadata_result = Metadata | MetadataValueError | MetadataChannelPrivate

record env =
  sha256_prefix :: "string \<Rightarrow> string"
  chat_metadata :: "int \<Rightarrow> metadata_result"
  now :: string

text \<open>\<open>TelegramChat.get_or_create_by_id\<close>: both network failures are caught and yield \<open>None\<close>.\<close>

definition get_or_create_by_id :: "env \<Rightarrow> world \<Rightarrow> int \<Rightarrow> int option \<times> world" where
  "get_or_create_by_id e w chat_id =
     (if chat_id \<in> set (chats w) then (Some chat_id, w)
      else (case chat_metadata e chat_id of
              MetadataValueError \<Rightarrow> (None, w)
            | MetadataChannelPrivate \<Rightarrow> (None, w)
            | Metadata \<Rightarrow> (Some chat_id, w\<lparr>chats := chats w @ [chat_id]\<rparr>)))"

text \<open>\<open>TelegramMessage.get_hash\<close>: \<open>None.encode\<close> raises.\<close>

definition get_hash :: "env \<Rightarrow> string option \<Rightarrow> error + string" where
  "get_hash e message_content =
     (case message_content of None \<Rightarrow> Inl AttributeError | Some text \<Rightarrow> Inr (sha256_prefix e text))"

definition website_of :: "media option \<Rightarrow> string option" where
  "website_of m =
     (case m of
        Some (MessageMediaWebPage (WebPage base_url)) \<Rightarrow>
          (let website = (if is_prefix_of ''www.'' base_url then drop 4 base_url else base_url)
           in if website \<noteq> ''t.me'' then Some website else None)
      | _ \<Rightarrow> None)"

text \<open>\<open>TelegramMessage.from_telethon_message\<close>. A forward header without \<open>from_id\<close> or
  without \<open>channel_post\<close> falls into the \<open>else\<close> branch, like a message that is no forward.\<close>

definition from_telethon_message ::
  "env \<Rightarrow> world \<Rightarrow> telethon_message \<Rightarrow> bool \<Rightarrow> error + (int option telegram_message \<times> world)" where
  "from_telethon_message e w tm store_forwarded_original =
     (let original =
            (case tm_fwd_from tm of
               None \<Rightarrow> None
             | Some fwd \<Rightarrow>
                 (case (fwd_from_channel fwd, fwd_channel_post fwd) of
                    (Some origin, Some post) \<Rightarrow>
                      if store_forwarded_original then Some (origin, post, fwd_date fwd) else None
                  | _ \<Rightarrow> None));
          (chat_id, mid, created) =
            (case original of
               Some forwarded \<Rightarrow> forwarded
             | None \<Rightarrow> (tm_peer_channel tm, tm_id tm, tm_date tm));
          (c, w') = get_or_create_by_id e w chat_id
      in case get_hash e (tm_message tm) of
           Inl err \<Rightarrow> Inl err
         | Inr h \<Rightarrow>
             (case tm_message tm of
                None \<Rightarrow> Inl AttributeError
              | Some text \<Rightarrow>
                  Inr (\<lparr>chat = c, message_id = mid, content = text,
                        url = website_of (tm_media tm), hash = h, creation_date = created,
                        last_retrieved = now e, views = tm_views tm, forwards = tm_forwards tm\<rparr>, w')))"

text \<open>\<open>save(force_insert=True)\<close>: an \<open>INSERT\<close>, refused when the primary key exists or the
  chat is null.\<close>

definition save_force_insert :: "world \<Rightarrow> int option telegram_message \<Rightarrow> error + world" where
  "save_force_insert w m =
     (case chat m of
        None \<Rightarrow> Inl IntegrityError
      | Some c \<Rightarrow>
          if filter (\<lambda>r. hash r = hash m) (messages w) \<noteq> [] then Inl IntegrityError
          else Inr (w\<lparr>messages := messages w @
                 [\<lparr>chat = c, message_id = message_id m, content = content m, url = url m,
                   hash = hash m, creation_date = creation_date m,
                   last_retrieved = last_retrieved m, views = views m, forwards = forwards m\<rparr>]\<rparr>))"

text \<open>\<open>TelegramMessage.duplicate_exists\<close>. \<open>refresh\<close> is the block of five assignments,
  \<open>save_row\<close> the \<open>UPDATE ... WHERE hash = duplicate.hash\<close> of \<open>duplicate.save()\<close>.\<close>

definition refresh :: "int telegram_message \<Rightarrow> 'c telegram_message \<Rightarrow> int telegram_message" where
  "refresh duplicate m =
     duplicate\<lparr>content := content m, url := url m, views := views m, forwards := forwards m,
               last_retrieved := last_retrieved m\<rparr>"

definition save_row :: "world \<Rightarrow> int telegram_message \<Rightarrow> world" where
  "save_row w row = w\<lparr>messages := map (\<lambda>r. if hash r = hash row then row else r) (messages w)\<rparr>"

definition duplicate_exists :: "world \<Rightarrow> int option telegram_message \<Rightarrow> error + (bool \<times> world)" where
  "duplicate_exists w m =
     (case filter (\<lambda>r. hash r = hash m) (messages w) of
        [] \<Rightarrow> Inr (False, w)
      | duplicate # _ \<Rightarrow>
          if content duplicate = content m then Inr (True, save_row w (refresh duplicate m))
          else (case chat m of
                  None \<Rightarrow> Inl AttributeError
                | Some c \<Rightarrow>
                    if chat duplicate = c \<and> message_id duplicate = message_id m
                    then Inr (True, save_row w (refresh duplicate m))
                    else Inl HashCollision))"

section \<open>Message handlers\<close>

text \<open>\<open>TelegramMessageHandler.message_should_be_skipped\<close>: \<open>duplicate_exists\<close> is not called
  for empty content.\<close>

definition handler_message_should_be_skipped ::
  "world \<Rightarrow> int option telegram_message \<Rightarrow> bool \<Rightarrow> error + (bool \<times> world)" where
  "handler_message_should_be_skipped w m skip_messages_already_stored =
     (if content m = [] then Inr (True, w)
      else (case duplicate_exists w m of
              Inl err \<Rightarrow> Inl err
            | Inr (dup, w') \<Rightarrow> Inr (dup \<and> skip_messages_already_stored, w')))"

text \<open>
  The user at the prompts. One round is the user's answers during one call of
  \<open>label_and_store_message\<close>: the selected topics, each with the misconceptions selected
  for it, and the entry chosen in the options menu should it be shown. The script is the
  list of rounds still to come; a call with an empty script waits for input for ever.
\<close>

datatype menu_choice = StoreWithout | LabelAgain | SkipMessage | MarkForLater | StopCrawl

record prompt_round =
  picks :: "(topic \<times> misconception list) list"
  menu :: menu_choice

text \<open>\<open>NoLabelingMessageHandler.handle_message\<close>\<close>

definition no_labeling_handle_message ::
  "env \<Rightarrow> world \<Rightarrow> telethon_message \<Rightarrow> error + (string \<times> int option telegram_message \<times> world)" where
  "no_labeling_handle_message e w tm =
     (case from_telethon_message e w tm False of
        Inl err \<Rightarrow> Inl err
      | Inr (m, w1) \<Rightarrow>
          (case handler_message_should_be_skipped w1 m True of
             Inl err \<Rightarrow> Inl err
           | Inr (skip, w2) \<Rightarrow>
               if skip then Inr (''message skipped'', m, w2)
               else (case save_force_insert w2 m of
                       Inl err \<Rightarrow> Inl err
                     | Inr w3 \<Rightarrow> Inr (''message stored without labels'', m, w3))))"

text \<open>\<open>LabelingMessageHandler.get_topic_and_misconception_labels_from_user\<close>\<close>

definition get_topic_and_misconception_labels_from_user ::
  "prompt_round \<Rightarrow> topic list \<times> misconception list" where
  "get_topic_and_misconception_labels_from_user r = (map fst (picks r), concat (map snd (picks r)))"

text \<open>Row creation: \<open>chat\<close> is a non-null column of all three label tables.\<close>

definition create_message_topic :: "world \<Rightarrow> int option telegram_message \<Rightarrow> topic \<Rightarrow> error + world" where
  "create_message_topic w m t =
     (case chat m of
        None \<Rightarrow> Inl IntegrityError
      | Some c \<Rightarrow> Inr (w\<lparr>message_topics := message_topics w @ [(c, hash m, t)]\<rparr>))"

definition create_message_misconception ::
  "world \<Rightarrow> int option telegram_message \<Rightarrow> misconception option \<Rightarrow> error + world" where
  "create_message_misconception w m mc =
     (case chat m of
        None \<Rightarrow> Inl IntegrityError
      | Some c \<Rightarrow> Inr (w\<lparr>message_misconceptions := message_misconceptions w @ [(c, hash m, mc)]\<rparr>))"

definition create_message_to_skip :: "world \<Rightarrow> int option telegram_message \<Rightarrow> error + world" where
  "create_message_to_skip w m =
     (case chat m of
        None \<Rightarrow> Inl IntegrityError
      | Some c \<Rightarrow> Inr (w\<lparr>messages_to_skip := messages_to_skip w @ [(hash m, c)]\<rparr>))"

fun create_topics :: "world \<Rightarrow> int option telegram_message \<Rightarrow> topic list \<Rightarrow> error + world" where
  "create_topics w m [] = Inr w"
| "create_topics w m (t # ts) =
     (case create_message_topic w m t of Inl err \<Rightarrow> Inl err | Inr w' \<Rightarrow> create_topics w' m ts)"

fun create_misconceptions ::
  "world \<Rightarrow> int option telegram_message \<Rightarrow> misconception list \<Rightarrow> error + world" where
  "create_misconceptions w m [] = Inr w"
| "create_misconceptions w m (mc # mcs) =
     (case create_message_misconception w m (Some mc) of
        Inl err \<Rightarrow> Inl err
      | Inr w' \<Rightarrow> create_misconceptions w' m mcs)"

text \<open>The two \<open>delete().where(message_hash == ...)\<close> statements.\<close>

definition delete_labels :: "world \<Rightarrow> string \<Rightarrow> world" where
  "delete_labels w h =
     w\<lparr>message_topics := filter (\<lambda>(c, h', t). h' \<noteq> h) (message_topics w),
       message_misconceptions := filter (\<lambda>(c, h', mc). h' \<noteq> h) (message_misconceptions w)\<rparr>"

text \<open>The part of \<open>label_and_store_message\<close> after the check for \<open>"stop crawl"\<close>.\<close>

definition store_message_and_labels ::
  "world \<Rightarrow> int option telegram_message \<Rightarrow> topic list \<Rightarrow> misconception list \<Rightarrow> error + (string \<times> world)" where
  "store_message_and_labels w m selected_topics selected_misconceptions =
     (case (if filter (\<lambda>r. hash r = hash m) (messages w) = [] then save_force_insert w m
            else Inr (delete_labels w (hash m))) of
        Inl err \<Rightarrow> Inl err
      | Inr w1 \<Rightarrow>
          (case create_topics w1 m selected_topics of
             Inl err \<Rightarrow> Inl err
           | Inr w2 \<Rightarrow>
               (case create_misconceptions w2 m selected_misconceptions of
                  Inl err \<Rightarrow> Inl err
                | Inr w3 \<Rightarrow>
                    (case (if length selected_misconceptions = 0
                           then create_message_misconception w3 m None else Inr w3) of
                       Inl err \<Rightarrow> Inl err
                     | Inr w4 \<Rightarrow>
                         if length selected_misconceptions > 0
                         then Inr (''message stored with labels'', w4)
                         else Inr (''message stored without labels'', w4)))))"

text \<open>
  The branch \<open>"mark the message for later inspection?"\<close>: the index file is a dictionary
  from \<open>str(chat_id)\<close> to message ids; the test reads the key \<open>str(message_id)\<close>, the
  assignment writes the key \<open>str(chat_id)\<close>, and \<open>append\<close> on a missing key raises.
\<close>

definition mark_for_later :: "world \<Rightarrow> int option telegram_message \<Rightarrow> error + world" where
  "mark_for_later w m =
     (case chat m of
        None \<Rightarrow> Inl AttributeError
      | Some c \<Rightarrow>
          (let index = (if map_of (marked_for_later w) (message_id m) = None
                        then AList.update c [] (marked_for_later w) else marked_for_later w)
           in case map_of index c of
                None \<Rightarrow> Inl KeyError
              | Some ids \<Rightarrow> Inr (w\<lparr>marked_for_later := AList.update c (ids @ [message_id m]) index\<rparr>)))"

text \<open>
  \<open>LabelingMessageHandler.label_and_store_message\<close> and \<open>confirm_empty_selection\<close>, which
  call each other. The local \<open>status\<close> is \<open>None\<close> while no branch has assigned it.
\<close>

fun label_and_store_message ::
    "int option telegram_message \<Rightarrow> world \<Rightarrow> prompt_round list \<Rightarrow>
     error + (string \<times> world \<times> prompt_round list)"
  and confirm_empty_selection ::
    "string \<Rightarrow> int option telegram_message \<Rightarrow> world \<Rightarrow> menu_choice \<Rightarrow> prompt_round list \<Rightarrow>
     error + (string \<times> world \<times> prompt_round list)" where
  "label_and_store_message m w [] = Inl NoUserInput"
| "label_and_store_message m w (r # script) =
     (let (selected_topics, selected_misconceptions) = get_topic_and_misconception_labels_from_user r;
          assigned =
            (if length selected_topics = 0
               then Some (confirm_empty_selection ''topics'' m w (menu r) script)
             else if length selected_misconceptions = 0
               then Some (confirm_empty_selection ''misconceptions'' m w (menu r) script)
             else None)
      in case assigned of
           None \<Rightarrow> Inl UnboundLocalError
         | Some (Inl err) \<Rightarrow> Inl err
         | Some (Inr (status, w1, script1)) \<Rightarrow>
             if status = ''stop crawl'' then Inr (status, w1, script1)
             else (case store_message_and_labels w1 m selected_topics selected_misconceptions of
                     Inl err \<Rightarrow> Inl err
                   | Inr (result, w2) \<Rightarrow> Inr (result, w2, script1)))"
| "confirm_empty_selection entity m w StoreWithout script =
     Inr (''message stored without labels'', w, script)"
| "confirm_empty_selection entity m w LabelAgain script = label_and_store_message m w script"
| "confirm_empty_selection entity m w MarkForLater script =
     (case mark_for_later w m of
        Inl err \<Rightarrow> Inl err
      | Inr w1 \<Rightarrow>
          (case create_message_to_skip w1 m of
             Inl err \<Rightarrow> Inl err
           | Inr w2 \<Rightarrow> Inr (''message skipped'', w2, script)))"
| "confirm_empty_selection entity m w SkipMessage script =
     (case create_message_to_skip w m of
        Inl err \<Rightarrow> Inl err
      | Inr w1 \<Rightarrow> Inr (''message skipped'', w1, script))"
| "confirm_empty_selection entity m w StopCrawl script = Inr (''stop crawl'', w, script)"

text \<open>\<open>LabelingMessageHandler.message_should_be_skipped\<close>\<close>

definition labeling_message_should_be_skipped ::
  "world \<Rightarrow> int option telegram_message \<Rightarrow> bool \<Rightarrow> error + (bool \<times> world)" where
  "labeling_message_should_be_skipped w m skip_messages_already_stored =
     (case handler_message_should_be_skipped w m skip_messages_already_stored of
        Inl err \<Rightarrow> Inl err
      | Inr (skip, w') \<Rightarrow>
          if skip then Inr (True, w')
          else if filter (\<lambda>(h, c). h = hash m) (messages_to_skip w') \<noteq> [] then Inr (True, w')
          else Inr (False, w'))"

text \<open>\<open>LabelingMessageHandler.handle_message\<close>\<close>

definition labeling_handle_message ::
  "env \<Rightarrow> world \<Rightarrow> prompt_round list \<Rightarrow> telethon_message \<Rightarrow> bool \<Rightarrow>
   error + (string \<times> int option telegram_message \<times> world \<times> prompt_round list)" where
  "labeling_handle_message e w script tm skip_messages_already_stored =
     (case from_telethon_message e w tm False of
        Inl err \<Rightarrow> Inl err
      | Inr (m, w1) \<Rightarrow>
          (case labeling_message_should_be_skipped w1 m skip_messages_already_stored of
             Inl err \<Rightarrow> Inl err
           | Inr (skip, w2) \<Rightarrow>
               if skip then Inr (''message skipped'', m, w2, script)
               else (case label_and_store_message m w2 script of
                       Inl err \<Rightarrow> Inl err
                     | Inr (status, w3, script') \<Rightarrow> Inr (status, m, w3, script'))))"

section \<open>The persisted crawl state\<close>

text \<open>
  \<open>str\<close> of the values that the crawlers put into the strategy-specific part of a crawl
  state: a string is itself, a list of strings is printed with \<open>repr\<close> of its elements.
  \<open>repr\<close> of a string takes double quotes when the string has an apostrophe and no
  double quote, and single quotes otherwise; it escapes the backslash, the chosen quote,
  newline, carriage return and tab, and prints the other control characters as
  \<open>\xNN\<close>. Characters beyond ASCII are taken to be printable and are kept.
\<close>

datatype pyval = PyStr string | PyStrList "string list"

definition backslash :: char where "backslash = CHR 0x5C"
definition single_quote :: char where "single_quote = CHR 0x27"
definition double_quote :: char where "double_quote = CHR 0x22"

definition hex_digit :: "nat \<Rightarrow> char" where
  "hex_digit n = (''0123456789abcdef'' ! (n mod 16))"

definition repr_char :: "char \<Rightarrow> char \<Rightarrow> string" where
  "repr_char quote c =
     (if c = backslash then [backslash, backslash]
      else if c = quote then [backslash, quote]
      else if c = CHR 0x0A then [backslash, CHR ''n'']
      else if c = CHR 0x0D then [backslash, CHR ''r'']
      else if c = CHR 0x09 then [backslash, CHR ''t'']
      else if of_char c < (32 :: nat) \<or> of_char c = (127 :: nat)
        then [backslash, CHR ''x'', hex_digit (of_char c div 16), hex_digit (of_char c)]
      else [c])"

definition py_repr_str :: "string \<Rightarrow> string" where
  "py_repr_str s =
     (let quote = (if single_quote \<in> set s \<and> double_quote \<notin> set s
                   then double_quote else single_quote)
      in [quote] @ concat (map (repr_char quote) s) @ [quote])"

fun join_comma :: "string list \<Rightarrow> string" where
  "join_comma [] = []"
| "join_comma [x] = x"
| "join_comma (x # y # ys) = x @ '', '' @ join_comma (y # ys)"

fun py_str :: "pyval \<Rightarrow> string" where
  "py_str (PyStr s) = s"
| "py_str (PyStrList xs) = ''['' @ join_comma (map py_repr_str xs) @ '']''"

text \<open>
  One crawl state. The dates are \<open>datetime\<close> objects in memory and strings in the JSON
  file, so their type is a parameter. Keys that a dictionary need not have are optional
  fields. \<open>props\<close> holds the strategy-specific keys (\<open>keywords\<close>, \<open>base_model\<close>,
  \<open>model_directory\<close>) in insertion order. The key \<open>finished\<close>, written only by the
  controller's main loop, is left out.
\<close>

record 'd crawl_state =
  index :: nat
  seed_chats :: "int list"
  min_date :: "'d option"
  max_date :: "'d option"
  chats_to_search :: "int list"
  chats_searched :: "int list"
  chats_not_searchable :: "int list option"
  started :: string
  no_labeling_mode :: bool
  props :: "(string \<times> pyval) list"
  current_chat_classified_messages_ids :: "int list option"
  classified_chat_until :: "(int \<times> int) list option"

text \<open>\<open>json.dump(..., default=str)\<close> followed by \<open>json.loads\<close>: a date becomes its \<open>str\<close>.\<close>

definition to_json :: "datetime crawl_state \<Rightarrow> string crawl_state" where
  "to_json cs =
     \<lparr>index = index cs, seed_chats = seed_chats cs,
      min_date = map_option str_datetime (min_date cs),
      max_date = map_option str_datetime (max_date cs),
      chats_to_search = chats_to_search cs, chats_searched = chats_searched cs,
      chats_not_searchable = chats_not_searchable cs, started = started cs,
      no_labeling_mode = no_labeling_mode cs, props = props cs,
      current_chat_classified_messages_ids = current_chat_classified_messages_ids cs,
      classified_chat_until = classified_chat_until cs\<rparr>"

text \<open>\<open>BaselineCrawler.store_crawl_state\<close>, on the list read from the crawler's JSON file
  (the empty list when the file does not exist).\<close>

definition baseline_store_crawl_state ::
  "string crawl_state list \<Rightarrow> datetime crawl_state \<Rightarrow> error + string crawl_state list" where
  "baseline_store_crawl_state crawls cs =
     (if length crawls = index cs then Inr (crawls @ [to_json cs])
      else if index cs < length crawls then Inr (crawls[index cs := to_json cs])
      else Inl IndexError)"

text \<open>
  The text that \<open>retrieve_or_initialize_crawl_state\<close> places between double quotes in the
  source handed to \<open>eval\<close> is read back by Python as a string literal. A literal without
  double quote and backslash denotes its own characters; the escapes that \<open>repr\<close>
  produces are decoded; a double quote ends the literal early, and when an identifier
  that is no operator keyword and no string prefix follows, the source is a syntax error.
  Every other text is outside the modelled fragment.
\<close>

definition is_name_start :: "char \<Rightarrow> bool" where
  "is_name_start c = (let n = (of_char c :: nat) in (65 \<le> n \<and> n \<le> 90) \<or> (97 \<le> n \<and> n \<le> 122) \<or> n = 95)"

definition is_name_char :: "char \<Rightarrow> bool" where
  "is_name_char c = (is_name_start c \<or> (let n = (of_char c :: nat) in 48 \<le> n \<and> n \<le> 57))"

definition printable :: "char \<Rightarrow> bool" where
  "printable c = (let n = (of_char c :: nat) in 32 \<le> n \<and> n \<noteq> 127)"

definition name_follows :: "string \<Rightarrow> bool" where
  "name_follows rest =
     (case rest of
        [] \<Rightarrow> False
      | c # _ \<Rightarrow>
          is_name_start c
          \<and> (let name = takeWhile is_name_char rest; after = dropWhile is_name_char rest
             in name \<notin> set [''and'', ''or'', ''if'', ''in'', ''is'', ''not'', ''for'', ''else'',
                              ''async'', ''await'']
                \<and> length name > 2
                \<and> (case after of [] \<Rightarrow> True | a # _ \<Rightarrow> (of_char a :: nat) < 128)))"

fun scan_literal :: "string \<Rightarrow> error + string" where
  "scan_literal [] = Inr []"
| "scan_literal (c # cs) =
     (if c = double_quote
        then (if name_follows cs then Inl SyntaxError else Inl EvalNotModelled)
      else if c = backslash
        then (case cs of
                [] \<Rightarrow> Inl EvalNotModelled
              | e # cs' \<Rightarrow>
                  (let decoded =
                         (if e = backslash then Some backslash
                          else if e = single_quote then Some single_quote
                          else if e = double_quote then Some double_quote
                          else if e = CHR ''n'' then Some (CHR 0x0A)
                          else if e = CHR ''r'' then Some (CHR 0x0D)
                          else if e = CHR ''t'' then Some (CHR 0x09)
                          else None)
                   in case decoded of
                        None \<Rightarrow> Inl EvalNotModelled
                      | Some d \<Rightarrow>
                          (case scan_literal cs' of Inl err \<Rightarrow> Inl err | Inr v \<Rightarrow> Inr (d # v))))
      else (case scan_literal cs of Inl err \<Rightarrow> Inl err | Inr v \<Rightarrow> Inr (c # v)))"

definition eval_literal :: "string \<Rightarrow> error + string" where
  "eval_literal text = (if list_all printable text then scan_literal text else Inl EvalNotModelled)"

text \<open>The clauses appended to the filter: for each property the key, read back from
  \<open>c["..."]\<close>, and the value's \<open>str\<close>, read back from \<open>"..."\<close>. Python compiles the whole
  source before it evaluates any part of it.\<close>

fun compile_clauses :: "(string \<times> pyval) list \<Rightarrow> error + (string \<times> string) list" where
  "compile_clauses [] = Inr []"
| "compile_clauses ((k, v) # rest) =
     (case eval_literal k of
        Inl err \<Rightarrow> Inl err
      | Inr k' \<Rightarrow>
          (case eval_literal (py_str v) of
             Inl err \<Rightarrow> Inl err
           | Inr lit \<Rightarrow>
               (case compile_clauses rest of
                  Inl err \<Rightarrow> Inl err
                | Inr clauses \<Rightarrow> Inr ((k', lit) # clauses))))"

text \<open>The chain of \<open>and\<close>: a false conjunct ends the evaluation, a missing key raises.\<close>

fun eval_clauses :: "(string \<times> pyval) list \<Rightarrow> (string \<times> string) list \<Rightarrow> error + bool" where
  "eval_clauses c [] = Inr True"
| "eval_clauses c ((k, lit) # rest) =
     (case map_of c k of
        None \<Rightarrow> Inl KeyError
      | Some v \<Rightarrow> if py_str v = lit then eval_clauses c rest else Inr False)"

definition eval_filter ::
  "string crawl_state \<Rightarrow> int list \<Rightarrow> datetime option \<Rightarrow> datetime option \<Rightarrow> bool \<Rightarrow>
   (string \<times> pyval) list \<Rightarrow> error + bool" where
  "eval_filter c seed_chat_ids lo hi no_labeling properties =
     (case compile_clauses properties of
        Inl err \<Rightarrow> Inl err
      | Inr clauses \<Rightarrow>
          if seed_chats c = seed_chat_ids
             \<and> str_opt (\<lambda>x. x) (min_date c) = str_opt str_datetime lo
             \<and> str_opt (\<lambda>x. x) (max_date c) = str_opt str_datetime hi
             \<and> no_labeling_mode c = no_labeling
          then eval_clauses (props c) clauses
          else Inr False)"

text \<open>The loop \<open>for i, c in enumerate(crawls)\<close> with its \<open>break\<close>.\<close>

fun find_crawl ::
  "nat \<Rightarrow> string crawl_state list \<Rightarrow> int list \<Rightarrow> datetime option \<Rightarrow> datetime option \<Rightarrow> bool \<Rightarrow>
   (string \<times> pyval) list \<Rightarrow> error + nat option" where
  "find_crawl i [] seed_chat_ids lo hi no_labeling properties = Inr None"
| "find_crawl i (c # crawls) seed_chat_ids lo hi no_labeling properties =
     (case eval_filter c seed_chat_ids lo hi no_labeling properties of
        Inl err \<Rightarrow> Inl err
      | Inr True \<Rightarrow> Inr (Some i)
      | Inr False \<Rightarrow> find_crawl (Suc i) crawls seed_chat_ids lo hi no_labeling properties)"

definition resume_crawl ::
  "string crawl_state \<Rightarrow> nat \<Rightarrow> datetime option \<Rightarrow> datetime option \<Rightarrow> datetime crawl_state" where
  "resume_crawl c i lo hi =
     \<lparr>index = i, seed_chats = seed_chats c, min_date = lo, max_date = hi,
      chats_to_search = chats_to_search c, chats_searched = chats_searched c,
      chats_not_searchable = chats_not_searchable c, started = started c,
      no_labeling_mode = no_labeling_mode c, props = props c,
      current_chat_classified_messages_ids = current_chat_classified_messages_ids c,
      classified_chat_until = classified_chat_until c\<rparr>"

fun set_properties :: "(string \<times> pyval) list \<Rightarrow> (string \<times> pyval) list \<Rightarrow> (string \<times> pyval) list" where
  "set_properties bag [] = bag"
| "set_properties bag ((k, v) # rest) = set_properties (AList.update k v bag) rest"

text \<open>\<open>BaselineCrawler.retrieve_or_initialize_crawl_state\<close>; \<open>clock\<close> is
  \<open>str(get_current_datetime())\<close>.\<close>

definition baseline_retrieve_or_initialize_crawl_state ::
  "string \<Rightarrow> string crawl_state list \<Rightarrow> int list \<Rightarrow> datetime option \<Rightarrow> datetime option \<Rightarrow> bool \<Rightarrow>
   (string \<times> pyval) list \<Rightarrow> error + datetime crawl_state" where
  "baseline_retrieve_or_initialize_crawl_state clock crawls seed_chat_ids lo hi label_message
       crawler_specific_state_properties =
     (let no_labeling = \<not> label_message
      in case find_crawl 0 crawls seed_chat_ids lo hi no_labeling
                crawler_specific_state_properties of
           Inl err \<Rightarrow> Inl err
         | Inr (Some i) \<Rightarrow> Inr (resume_crawl (crawls ! i) i lo hi)
         | Inr None \<Rightarrow>
             Inr \<lparr>index = length crawls, seed_chats = seed_chat_ids, min_date = lo,
                  max_date = hi, chats_to_search = seed_chat_ids, chats_searched = [],
                  chats_not_searchable = None, started = clock,
                  no_labeling_mode = no_labeling,
                  props = set_properties [] crawler_specific_state_properties,
                  current_chat_classified_messages_ids = None,
                  classified_chat_until = None\<rparr>)"

text \<open>
  The three crawlers. The classifier of the model-based crawler lives in a module that
  is not part of the sources at hand; it is a parameter that returns the label or fails.
\<close>

datatype crawler =
    BaselineCrawler
  | KeywordSearchCrawler (crawler_keywords: "string list")
  | BinaryClassifierCrawler (crawler_base_model: string) (crawler_model_directory: string)
      (crawler_classifier: "string \<Rightarrow> error + string")

text \<open>
  \<open>retrieve_or_initialize_crawl_state\<close> as the controller calls it, with four arguments.
  The override of the model-based crawler takes three and calls the base method without
  \<open>label_message\<close>, so that call raises \<open>TypeError\<close>.
\<close>

definition retrieve_or_initialize_crawl_state ::
  "crawler \<Rightarrow> string \<Rightarrow> string crawl_state list \<Rightarrow> int list \<Rightarrow> datetime option \<Rightarrow>
   datetime option \<Rightarrow> bool \<Rightarrow> error + datetime crawl_state" where
  "retrieve_or_initialize_crawl_state self clock crawls seed_chat_ids lo hi label_message =
     (case self of
        BaselineCrawler \<Rightarrow>
          baseline_retrieve_or_initialize_crawl_state clock crawls seed_chat_ids lo hi
            label_message []
      | KeywordSearchCrawler kws \<Rightarrow>
          baseline_retrieve_or_initialize_crawl_state clock crawls seed_chat_ids lo hi
            label_message [(''keywords'', PyStrList kws)]
      | BinaryClassifierCrawler _ _ _ \<Rightarrow> Inl TypeError)"

section \<open>Per-chat handling\<close>

text \<open>\<open>BinaryClassifierCrawler.crawl_should_be_stopped\<close>; the keys of
  \<open>classified_chat_until\<close> are \<open>str(chat_id)\<close>, modelled by the chat id.\<close>

definition binary_crawl_should_be_stopped ::
  "datetime crawl_state \<Rightarrow> telethon_message \<Rightarrow> datetime option \<Rightarrow> datetime option \<Rightarrow> bool" where
  "binary_crawl_should_be_stopped cs message lo hi =
     (if baseline_crawl_should_be_stopped message lo hi then True
      else if hi = None
              \<and> (case classified_chat_until cs of
                    None \<Rightarrow> False
                  | Some until \<Rightarrow>
                      (case map_of until (tm_peer_channel message) of
                         None \<Rightarrow> False
                       | Some last_id \<Rightarrow> tm_id message \<le> last_id))
        then True
      else False)"

text \<open>\<open>BinaryClassifierCrawler.message_should_be_skipped\<close>: it reads a key that the state
  may lack, calls the classifier, and records the ids of irrelevant messages.\<close>

definition binary_message_should_be_skipped ::
  "(string \<Rightarrow> error + string) \<Rightarrow> datetime crawl_state \<Rightarrow> telethon_message \<Rightarrow>
   datetime option \<Rightarrow> datetime option \<Rightarrow> error + (bool \<times> datetime crawl_state)" where
  "binary_message_should_be_skipped classify cs message lo hi =
     (if baseline_message_should_be_skipped message lo hi then Inr (True, cs)
      else (case tm_message message of
              None \<Rightarrow> Inr (True, cs)
            | Some text \<Rightarrow>
                (case current_chat_classified_messages_ids cs of
                   None \<Rightarrow> Inl KeyError
                 | Some ids \<Rightarrow>
                     if tm_id message \<in> set ids then Inr (True, cs)
                     else (case classify text of
                             Inl err \<Rightarrow> Inl err
                           | Inr label \<Rightarrow>
                               if label = ''irrelevant''
                               then Inr (True, cs\<lparr>current_chat_classified_messages_ids :=
                                                    Some (ids @ [tm_id message])\<rparr>)
                               else Inr (False, cs)))))"

text \<open>The methods that \<open>handle_chat\<close> looks up on \<open>self\<close>.\<close>

definition crawl_should_be_stopped ::
  "crawler \<Rightarrow> datetime crawl_state \<Rightarrow> telethon_message \<Rightarrow> datetime option \<Rightarrow> datetime option \<Rightarrow> bool" where
  "crawl_should_be_stopped self cs message lo hi =
     (case self of
        BinaryClassifierCrawler _ _ _ \<Rightarrow> binary_crawl_should_be_stopped cs message lo hi
      | _ \<Rightarrow> baseline_crawl_should_be_stopped message lo hi)"

definition message_should_be_skipped ::
  "crawler \<Rightarrow> datetime crawl_state \<Rightarrow> telethon_message \<Rightarrow> datetime option \<Rightarrow> datetime option \<Rightarrow>
   error + (bool \<times> datetime crawl_state)" where
  "message_should_be_skipped self cs message lo hi =
     (case self of
        BaselineCrawler \<Rightarrow> Inr (baseline_message_should_be_skipped message lo hi, cs)
      | KeywordSearchCrawler kws \<Rightarrow> Inr (keyword_message_should_be_skipped kws message lo hi, cs)
      | BinaryClassifierCrawler _ _ classify \<Rightarrow>
          binary_message_should_be_skipped classify cs message lo hi)"

text \<open>
  \<open>BinaryClassifierCrawler.store_crawl_state\<close> takes \<open>(status, message, crawl_state)\<close>.
  Every call in the sources passes the crawl state alone, which for this crawler raises
  \<open>TypeError\<close> before the body runs; the other crawlers inherit the base method.
\<close>

definition binary_store_crawl_state ::
  "string crawl_state list \<Rightarrow> string \<Rightarrow> telethon_message \<Rightarrow> datetime crawl_state \<Rightarrow>
   error + (datetime crawl_state \<times> string crawl_state list)" where
  "binary_store_crawl_state crawls status message cs =
     (case current_chat_classified_messages_ids cs of
        None \<Rightarrow> Inl KeyError
      | Some ids \<Rightarrow>
          (let cs' = cs\<lparr>current_chat_classified_messages_ids := Some (ids @ [tm_id message])\<rparr>
           in case baseline_store_crawl_state crawls cs' of
                Inl err \<Rightarrow> Inl err
              | Inr crawls' \<Rightarrow> Inr (cs', crawls')))"

definition store_crawl_state ::
  "crawler \<Rightarrow> string crawl_state list \<Rightarrow> datetime crawl_state \<Rightarrow> error + string crawl_state list" where
  "store_crawl_state self crawls cs =
     (case self of
        BinaryClassifierCrawler _ _ _ \<Rightarrow> Inl TypeError
      | _ \<Rightarrow> baseline_store_crawl_state crawls cs)"

text \<open>The truth value of a string in a condition.\<close>

definition truthy :: "string \<Rightarrow> bool" where
  "truthy s = (s \<noteq> [])"

text \<open>
  The block of \<open>handle_chat\<close> guarded by \<open>no_labeling_mode is False\<close>. \<open>None\<close> is the user's
  stop; otherwise the crawl state to go on with. The second test is written
  \<open>status == "message skipped" or "message stored without labels"\<close> in the source.
\<close>

definition discovery_step ::
  "int \<Rightarrow> datetime crawl_state \<Rightarrow> string \<Rightarrow> int option \<Rightarrow> error + datetime crawl_state option" where
  "discovery_step chat_id cs status handled_chat =
     (if status = ''stop crawl'' then Inr None
      else if status = ''message skipped'' \<or> truthy ''message stored without labels''
        then Inr (Some cs)
      else if status = ''message stored with labels''
        then (case handled_chat of
                None \<Rightarrow> Inl AttributeError
              | Some origin \<Rightarrow>
                  if origin \<noteq> chat_id \<and> origin \<notin> set (chats_searched cs)
                  then Inr (Some (cs\<lparr>chats_to_search := origin # chats_to_search cs\<rparr>))
                  else Inr (Some cs))
      else Inr (Some cs))"

text \<open>The handler that \<open>handle_chat\<close> creates, called on one message.\<close>

definition handle_message ::
  "env \<Rightarrow> bool \<Rightarrow> world \<Rightarrow> prompt_round list \<Rightarrow> telethon_message \<Rightarrow>
   error + (string \<times> int option telegram_message \<times> world \<times> prompt_round list)" where
  "handle_message e no_labeling w script message =
     (if no_labeling
      then (case no_labeling_handle_message e w message of
              Inl err \<Rightarrow> Inl err
            | Inr (status, m, w') \<Rightarrow> Inr (status, m, w', script))
      else labeling_handle_message e w script message True)"

text \<open>
  What the message iterator does next: it yields a message or raises
  \<open>ChannelPrivateError\<close>; at the end of the list it is exhausted. The events record the
  order of fetches, handler calls and writes of the JSON file.
\<close>

datatype fetch = Yield telethon_message | RaiseChannelPrivateError

datatype event =
    Fetched telethon_message
  | Handled telethon_message string
  | Persisted "string crawl_state"

datatype loop_exit = Exhausted | Broke | UserStop | AccessDenied

type_synonym run =
  "datetime crawl_state \<times> world \<times> prompt_round list \<times> string crawl_state list \<times> event list"

definition with_events :: "event list \<Rightarrow> error + (loop_exit \<times> run) \<Rightarrow> error + (loop_exit \<times> run)" where
  "with_events evs r =
     (case r of
        Inl err \<Rightarrow> Inl err
      | Inr (x, cs, w, script, crawls, trace) \<Rightarrow> Inr (x, cs, w, script, crawls, evs @ trace))"

text \<open>The loop \<open>async for message in client.iter_messages(...)\<close> inside the \<open>try\<close>.\<close>

fun iter_messages ::
  "crawler \<Rightarrow> env \<Rightarrow> int \<Rightarrow> datetime option \<Rightarrow> datetime option \<Rightarrow> bool \<Rightarrow> fetch list \<Rightarrow>
   datetime crawl_state \<Rightarrow> world \<Rightarrow> prompt_round list \<Rightarrow> string crawl_state list \<Rightarrow>
   error + (loop_exit \<times> run)" where
  "iter_messages self e chat_id lo hi no_labeling [] cs w script crawls =
     Inr (Exhausted, cs, w, script, crawls, [])"
| "iter_messages self e chat_id lo hi no_labeling (RaiseChannelPrivateError # rest) cs w script crawls =
     Inr (AccessDenied, cs, w, script, crawls, [])"
| "iter_messages self e chat_id lo hi no_labeling (Yield message # rest) cs w script crawls =
     (if crawl_should_be_stopped self cs message lo hi
      then Inr (Broke, cs, w, script, crawls, [Fetched message])
      else (case message_should_be_skipped self cs message lo hi of
              Inl err \<Rightarrow> Inl err
            | Inr (True, cs1) \<Rightarrow>
                with_events [Fetched message]
                  (iter_messages self e chat_id lo hi no_labeling rest cs1 w script crawls)
            | Inr (False, cs1) \<Rightarrow>
                (case handle_message e no_labeling w script message of
                   Inl err \<Rightarrow> Inl err
                 | Inr (status, m, w1, script1) \<Rightarrow>
                     (case (if no_labeling_mode cs1 = False
                            then discovery_step chat_id cs1 status (chat m)
                            else Inr (Some cs1)) of
                        Inl err \<Rightarrow> Inl err
                      | Inr None \<Rightarrow>
                          (case store_crawl_state self crawls cs1 of
                             Inl err \<Rightarrow> Inl err
                           | Inr crawls1 \<Rightarrow>
                               Inr (UserStop, cs1, w1, script1, crawls1,
                                    [Fetched message, Handled message status,
                                     Persisted (to_json cs1)]))
                      | Inr (Some cs2) \<Rightarrow>
                          (case store_crawl_state self crawls cs2 of
                             Inl err \<Rightarrow> Inl err
                           | Inr crawls1 \<Rightarrow>
                               with_events [Fetched message, Handled message status,
                                            Persisted (to_json cs2)]
                                 (iter_messages self e chat_id lo hi no_labeling rest cs2 w1
                                    script1 crawls1))))))"

text \<open>\<open>list.pop(0)\<close>\<close>

definition pop_front :: "'a list \<Rightarrow> error + 'a list" where
  "pop_front xs = (case xs of [] \<Rightarrow> Inl IndexError | _ # rest \<Rightarrow> Inr rest)"

text \<open>The last lines of both exits of \<open>handle_chat\<close> that return 0:
  \<open>chats_to_search.pop(0)\<close>, \<open>store_crawl_state\<close>, \<open>return 0\<close>.\<close>

definition pop_store_return ::
  "crawler \<Rightarrow> datetime crawl_state \<Rightarrow> world \<Rightarrow> prompt_round list \<Rightarrow> string crawl_state list \<Rightarrow>
   event list \<Rightarrow> error + (nat \<times> run)" where
  "pop_store_return self cs w script crawls trace =
     (case pop_front (chats_to_search cs) of
        Inl err \<Rightarrow> Inl err
      | Inr queue \<Rightarrow>
          (let cs' = cs\<lparr>chats_to_search := queue\<rparr>
           in case store_crawl_state self crawls cs' of
                Inl err \<Rightarrow> Inl err
              | Inr crawls' \<Rightarrow> Inr (0, cs', w, script, crawls', trace @ [Persisted (to_json cs')])))"

text \<open>\<open>BaselineCrawler.handle_chat\<close>, with \<open>self\<close> any of the three crawlers. The result is
  the returned number and the state after the call.\<close>

definition handle_chat ::
  "crawler \<Rightarrow> env \<Rightarrow> int \<Rightarrow> fetch list \<Rightarrow> datetime crawl_state \<Rightarrow> world \<Rightarrow> prompt_round list \<Rightarrow>
   string crawl_state list \<Rightarrow> error + (nat \<times> run)" where
  "handle_chat self e chat_id stream cs w script crawls =
     (let lo = min_date cs; hi = max_date cs
      in case iter_messages self e chat_id lo hi (no_labeling_mode cs) stream cs w script crawls of
           Inl err \<Rightarrow> Inl err
         | Inr (UserStop, cs1, w1, script1, crawls1, trace) \<Rightarrow>
             Inr (1, cs1, w1, script1, crawls1, trace)
         | Inr (AccessDenied, cs1, w1, script1, crawls1, trace) \<Rightarrow>
             pop_store_return self
               (cs1\<lparr>chats_not_searchable :=
                      Some ((case chats_not_searchable cs1 of None \<Rightarrow> [] | Some l \<Rightarrow> l) @ [chat_id])\<rparr>)
               w1 script1 crawls1 trace
         | Inr (_, cs1, w1, script1, crawls1, trace) \<Rightarrow>
             pop_store_return self
               (if hi \<noteq> None then cs1\<lparr>chats_searched := chats_searched cs1 @ [chat_id]\<rparr>
                else cs1\<lparr>chats_to_search := chats_to_search cs1 @ [chat_id]\<rparr>)
               w1 script1 crawls1 trace)"

text \<open>Two readings of a trace: every fetched message, or every message handed to the
  handler, is followed by a write of the crawl state before the next fetch.\<close>

fun persisted_before_next_fetch :: "event list \<Rightarrow> bool" where
  "persisted_before_next_fetch [] = False"
| "persisted_before_next_fetch (Persisted _ # _) = True"
| "persisted_before_next_fetch (Fetched _ # _) = False"
| "persisted_before_next_fetch (Handled _ _ # es) = persisted_before_next_fetch es"

fun checkpoint_after_every_fetch :: "event list \<Rightarrow> bool" where
  "checkpoint_after_every_fetch [] = True"
| "checkpoint_after_every_fetch (Fetched _ # es) =
     (persisted_before_next_fetch es \<and> checkpoint_after_every_fetch es)"
| "checkpoint_after_every_fetch (_ # es) = checkpoint_after_every_fetch es"

fun checkpoint_after_every_handled :: "event list \<Rightarrow> bool" where
  "checkpoint_after_every_handled [] = True"
| "checkpoint_after_every_handled (Handled _ _ # es) =
     (persisted_before_next_fetch es \<and> checkpoint_after_every_handled es)"
| "checkpoint_after_every_handled (_ # es) = checkpoint_after_every_handled es"

fun handled_messages :: "event list \<Rightarrow> telethon_message list" where
  "handled_messages [] = []"
| "handled_messages (Handled m _ # es) = m # handled_messages es"
| "handled_messages (_ # es) = handled_messages es"

text \<open>The crawlers whose \<open>self.store_crawl_state\<close> is the base method.\<close>

definition inherits_store :: "crawler \<Rightarrow> bool" where
  "inherits_store self = (case self of BinaryClassifierCrawler _ _ _ \<Rightarrow> False | _ \<Rightarrow> True)"

section \<open>Concrete stores and messages used in the examples\<close>

definition july_15 :: datetime where
  "july_15 = \<lparr>year = 2021, month = 7, day = 15, hour = 0, minute = 0, second = 0, microsecond = 0\<rparr>"

definition stored_row :: "int telegram_message" where
  "stored_row = \<lparr>chat = 100, message_id = 7, content = ''abc'', url = None, hash = ''h1'',
                  creation_date = july_15, last_retrieved = ''t0'', views = Some 10,
                  forwards = Some 1\<rparr>"

definition example_world :: world where
  "example_world = \<lparr>chats = [100], messages = [stored_row], message_topics = [],
                     message_misconceptions = [], messages_to_skip = [], marked_for_later = []\<rparr>"

text \<open>The stored message fetched again, with a changed view count.\<close>

definition refetched_message :: "int option telegram_message" where
  "refetched_message = \<lparr>chat = Some 100, message_id = 7, content = ''abc'', url = None,
                         hash = ''h1'', creation_date = july_15, last_retrieved = ''t1'',
                         views = Some 25, forwards = Some 1\<rparr>"


text \<open>A round in which the user selects topic 2 and, for it, misconception 5.\<close>

definition full_selection :: prompt_round where
  "full_selection = \<lparr>picks = [(2, [5])], menu = StoreWithout\<rparr>"

text \<open>A stand-in for the truncated fingerprint: the first two characters of the text.\<close>

definition example_env :: env where
  "example_env = \<lparr>sha256_prefix = (\<lambda>text. take 2 text), chat_metadata = (\<lambda>_. Metadata),
                   now = ''t1''\<rparr>"

definition message_without_text :: telethon_message where
  "message_without_text =
     \<lparr>tm_id = 2, tm_peer_channel = 100, tm_message = None, tm_date = july_15, tm_media = None,
      tm_fwd_from = None, tm_views = None, tm_forwards = None\<rparr>"

definition message_with_text :: telethon_message where
  "message_with_text =
     \<lparr>tm_id = 1, tm_peer_channel = 100, tm_message = Some ''h1 abc'', tm_date = july_15,
      tm_media = None, tm_fwd_from = None, tm_views = Some 3, tm_forwards = None\<rparr>"

definition empty_world :: world where
  "empty_world = \<lparr>chats = [], messages = [], message_topics = [], message_misconceptions = [],
                   messages_to_skip = [], marked_for_later = []\<rparr>"

text \<open>A new run over chat 100, bounded above, without labeling.\<close>

definition fresh_crawl :: "datetime crawl_state" where
  "fresh_crawl =
     \<lparr>index = 0, seed_chats = [100], min_date = None, max_date = Some july_15,
      chats_to_search = [100], chats_searched = [], chats_not_searchable = None,
      started = ''t0'', no_labeling_mode = True, props = [],
      current_chat_classified_messages_ids = None, classified_chat_until = None\<rparr>"




text \<open>The row that storing \<open>message_with_text\<close> creates.\<close>

definition stored_message :: "int telegram_message" where
  "stored_message = \<lparr>chat = 100, message_id = 1, content = ''h1 abc'', url = None, hash = ''h1'',
                      creation_date = july_15, last_retrieved = ''t1'', views = Some 3,
                      forwards = None\<rparr>"

text \<open>A store holding the row of \<open>message_with_text\<close>, and a later message of a chat that
  is not in the store and whose metadata request is refused; its text has the same
  truncated fingerprint.\<close>

definition one_message_world :: world where
  "one_message_world = empty_world\<lparr>chats := [100], messages := [stored_message]\<rparr>"




text \<open>The state of a run of the model-based crawler: the list of classified ids exists.\<close>

definition classified_crawl :: "datetime crawl_state" where
  "classified_crawl = fresh_crawl\<lparr>current_chat_classified_messages_ids := Some []\<rparr>"

definition model_based_crawler :: crawler where
  "model_based_crawler = BinaryClassifierCrawler ''bert'' ''models'' (\<lambda>_. Inr ''relevant'')"

text \<open>A message of chat 100 whose text holds none of the keywords used below.\<close>

definition unrelated_message :: telethon_message where
  "unrelated_message =
     \<lparr>tm_id = 3, tm_peer_channel = 100, tm_message = Some ''h2 xyz'', tm_date = july_15,
      tm_media = None, tm_fwd_from = None, tm_views = None, tm_forwards = None\<rparr>"

text \<open>A keyword with an apostrophe, and the state that the keyword crawler creates for a
  labeling run over chat 100 on an empty collection.\<close>

definition apostrophe_keywords :: "string list" where
  "apostrophe_keywords = [''don'' @ [single_quote] @ ''t'']"

definition keyword_crawl :: "string list \<Rightarrow> datetime crawl_state" where
  "keyword_crawl kws =
     \<lparr>index = 0, seed_chats = [100], min_date = None, max_date = Some july_15,
      chats_to_search = [100], chats_searched = [], chats_not_searchable = None,
      started = ''t0'', no_labeling_mode = False, props = [(''keywords'', PyStrList kws)],
      current_chat_classified_messages_ids = None, classified_chat_until = None\<rparr>"

text \<open>The stored message of chat 100 with one topic label and one misconception label, the
  object built when it is fetched again, and a round in which the user selects nothing
  and confirms with the first menu entry.\<close>

definition labelled_world :: world where
  "labelled_world = one_message_world\<lparr>message_topics := [(100, ''h1'', 1)],
                                      message_misconceptions := [(100, ''h1'', Some 3)]\<rparr>"

definition confirmed_empty_selection :: prompt_round where
  "confirmed_empty_selection = \<lparr>picks = [], menu = StoreWithout\<rparr>"

definition refetched_stored_message :: "int option telegram_message" where
  "refetched_stored_message = \<lparr>chat = Some 100, message_id = 1, content = ''h1 abc'', url = None,
                      hash = ''h1'', creation_date = july_15, last_retrieved = ''t1'',
                      views = Some 3, forwards = None\<rparr>"


lemma is_prefix_of_iff: "is_prefix_of xs ys \<longleftrightarrow> (\<exists>zs. ys = xs @ zs)"
  by (induction xs ys rule: is_prefix_of.induct) auto

lemma str_contains_iff: "str_contains needle hay \<longleftrightarrow> (\<exists>ps ss. hay = ps @ needle @ ss)"
proof (induction hay)
  case Nil
  then show ?case by auto
next
  case (Cons c cs)
  show ?case
  proof
    assume "str_contains needle (c # cs)"
    then consider "is_prefix_of needle (c # cs)" | "str_contains needle cs" by auto
    then show "\<exists>ps ss. c # cs = ps @ needle @ ss"
    proof cases
      case 1
      then obtain zs where "c # cs = needle @ zs" by (auto simp: is_prefix_of_iff)
      then have "c # cs = [] @ needle @ zs" by simp
      then show ?thesis by blast
    next
      case 2
      then obtain ps ss where "cs = ps @ needle @ ss" using Cons.IH by blast
      then have "c # cs = (c # ps) @ needle @ ss" by simp
      then show ?thesis by blast
    qed
  next
    assume "\<exists>ps ss. c # cs = ps @ needle @ ss"
    then obtain ps ss where eq: "c # cs = ps @ needle @ ss" by blast
    show "str_contains needle (c # cs)"
    proof (cases ps)
      case Nil
      then have "is_prefix_of needle (c # cs)" using eq by (auto simp: is_prefix_of_iff)
      then show ?thesis by simp
    next
      case (Cons p ps')
      then have "cs = ps' @ needle @ ss" using eq by simp
      then have "str_contains needle cs" using Cons.IH by blast
      then show ?thesis by simp
    qed
  qed
qed

lemma keyword_loop_iff: "keyword_loop kws text \<longleftrightarrow> (\<forall>k \<in> set kws. \<not> str_contains k text)"
  by (induction kws) auto


section \<open>Deduplication\<close>







section \<open>The labeling workflow\<close>

lemma labels_empty_topics:
  "fst (get_topic_and_misconception_labels_from_user r) = [] \<Longrightarrow>
   snd (get_topic_and_misconception_labels_from_user r) = []"
  by (simp add: get_topic_and_misconception_labels_from_user_def)

lemma store_message_and_labels_no_misconception:
  "store_message_and_labels w m ts [] = Inr (s, w') \<Longrightarrow> s = ''message stored without labels''"
  by (auto simp: store_message_and_labels_def split: sum.splits if_splits)

lemma never_with_labels:
  "label_and_store_message m w script = Inr (s, w', script') \<longrightarrow>
     s \<noteq> ''message stored with labels''"
  and "confirm_empty_selection entity m w choice script = Inr (s, w', script') \<longrightarrow>
     s \<noteq> ''message stored with labels''"
proof (induction m w script and entity m w choice script arbitrary: s w' script' and s w' script'
       rule: label_and_store_message_confirm_empty_selection.induct)
  case (1 m w)
  then show ?case by simp
next
  case (2 m w r script)
  obtain ts ms where lab: "get_topic_and_misconception_labels_from_user r = (ts, ms)"
    by fastforce
  show ?case
  proof (cases "ts = []")
    case True
    then have ms: "ms = []" using labels_empty_topics[of r] lab by simp
    show ?thesis using lab True ms
      by (auto simp: Let_def split: sum.splits if_splits
               dest: store_message_and_labels_no_misconception)
  next
    case False
    show ?thesis
    proof (cases "ms = []")
      case True
      show ?thesis using lab False True
        by (auto simp: Let_def split: sum.splits if_splits
                 dest: store_message_and_labels_no_misconception)
    next
      case F2: False
      show ?thesis using lab False F2 by (simp add: Let_def)
    qed
  qed
next
  case (3 entity m w script)
  then show ?case by auto
next
  case (4 entity m w script)
  then show ?case by simp
next
  case (5 entity m w script)
  then show ?case by (auto split: sum.splits)
next
  case (6 entity m w script)
  then show ?case by (auto split: sum.splits)
next
  case (7 entity m w script)
  then show ?case by auto
qed

text \<open>
  Claim C4. When the user's selection holds at least one topic and at least one
  misconception, no branch assigns \<open>status\<close> before it is read, and the call raises the
  unbound-variable error; and no call of \<open>label_and_store_message\<close>, whatever the user
  answers, returns \<open>"message stored with labels"\<close>.
\<close>

theorem label_and_store_message_status_unbound:
  "(fst (get_topic_and_misconception_labels_from_user r) \<noteq> []
      \<and> snd (get_topic_and_misconception_labels_from_user r) \<noteq> []
    \<longrightarrow> label_and_store_message m w (r # script) = Inl UnboundLocalError)
   \<and> label_and_store_message m w script \<noteq> Inr (''message stored with labels'', w', script')"
proof (intro conjI impI)
  assume sel: "fst (get_topic_and_misconception_labels_from_user r) \<noteq> []
      \<and> snd (get_topic_and_misconception_labels_from_user r) \<noteq> []"
  obtain ts ms where lab: "get_topic_and_misconception_labels_from_user r = (ts, ms)"
    by fastforce
  then show "label_and_store_message m w (r # script) = Inl UnboundLocalError"
    using sel by (simp add: Let_def)
next
  show "label_and_store_message m w script \<noteq> Inr (''message stored with labels'', w', script')"
    using never_with_labels(1)[of m w script "''message stored with labels''" w' script']
    by blast
qed

theorem label_and_store_message_status_unbound_witness:
  "fst (get_topic_and_misconception_labels_from_user full_selection) \<noteq> []
   \<and> snd (get_topic_and_misconception_labels_from_user full_selection) \<noteq> []
   \<and> label_and_store_message refetched_message example_world [full_selection] =
       Inl UnboundLocalError"
proof -
  have sel: "fst (get_topic_and_misconception_labels_from_user full_selection) \<noteq> []
      \<and> snd (get_topic_and_misconception_labels_from_user full_selection) \<noteq> []"
    by (simp add: get_topic_and_misconception_labels_from_user_def full_selection_def)
  from label_and_store_message_status_unbound[of full_selection refetched_message
         example_world "[]"] sel
  have "label_and_store_message refetched_message example_world [full_selection] =
          Inl UnboundLocalError" by blast
  then show ?thesis using sel by simp
qed

section \<open>The message loop of one chat\<close>

lemma discovery_step_eq:
  "discovery_step chat_id cs status h = (if status = ''stop crawl'' then Inr None else Inr (Some cs))"
  by (simp add: discovery_step_def truthy_def)

lemma with_events_Inr:
  "with_events evs r = Inr (x, cs1, w1, s1, f1, ev) \<longleftrightarrow>
   (\<exists>ev'. r = Inr (x, cs1, w1, s1, f1, ev') \<and> ev = evs @ ev')"
  by (auto simp: with_events_def split: sum.splits)

lemma skip_keeps_state:
  "inherits_store self \<Longrightarrow> message_should_be_skipped self cs m lo hi = Inr (b, cs1) \<Longrightarrow> cs1 = cs"
  by (auto simp: inherits_store_def message_should_be_skipped_def split: crawler.splits)

lemma store_grows:
  "baseline_store_crawl_state f cs = Inr f1 \<Longrightarrow> index cs < length f1 \<and> f1 ! index cs = to_json cs \<and> length f \<le> length f1"
  by (auto simp: baseline_store_crawl_state_def nth_append split: if_splits)

lemma store_inherited:
  "inherits_store self \<Longrightarrow> store_crawl_state self f cs = baseline_store_crawl_state f cs"
  by (auto simp: inherits_store_def store_crawl_state_def split: crawler.splits)

lemma iter_step:
  "iter_messages self e chat_id lo hi nl (Yield message # rest) cs w script crawls = Inr (x, cs', w', s', f', ev) \<Longrightarrow>
   inherits_store self \<Longrightarrow>
   (x = Broke \<and> cs' = cs \<and> w' = w \<and> s' = script \<and> f' = crawls \<and> ev = [Fetched message] \<and> crawl_should_be_stopped self cs message lo hi)
   \<or> (\<not> crawl_should_be_stopped self cs message lo hi \<and> message_should_be_skipped self cs message lo hi = Inr (True, cs)
       \<and> (\<exists>ev'. iter_messages self e chat_id lo hi nl rest cs w script crawls = Inr (x, cs', w', s', f', ev') \<and> ev = Fetched message # ev'))
   \<or> (\<not> crawl_should_be_stopped self cs message lo hi \<and> message_should_be_skipped self cs message lo hi = Inr (False, cs)
       \<and> (\<exists>status m w1 s1 f1. handle_message e nl w script message = Inr (status, m, w1, s1)
            \<and> baseline_store_crawl_state crawls cs = Inr f1
            \<and> ((x = UserStop \<and> cs' = cs \<and> w' = w1 \<and> s' = s1 \<and> f' = f1
                  \<and> ev = [Fetched message, Handled message status, Persisted (to_json cs)])
               \<or> (\<exists>ev'. iter_messages self e chat_id lo hi nl rest cs w1 s1 f1 = Inr (x, cs', w', s', f', ev')
                     \<and> ev = [Fetched message, Handled message status, Persisted (to_json cs)] @ ev'))))"
  apply (simp add: discovery_step_eq store_inherited
                   split: if_splits sum.splits prod.splits bool.splits option.splits)
  apply (auto simp: with_events_Inr dest: skip_keeps_state)
  done


lemma iter_invariant:
  assumes "inherits_store self"
    and "iter_messages self e chat_id lo hi nl stream cs w script crawls = Inr (x, cs', w', s', f', ev)"
  shows "cs' = cs \<and> length crawls \<le> length f' \<and> checkpoint_after_every_handled ev
         \<and> (\<forall>m \<in> set (handled_messages ev). message_should_be_skipped self cs m lo hi = Inr (False, cs))
         \<and> (x = UserStop \<longrightarrow> index cs < length f' \<and> f' ! index cs = to_json cs)"
  using assms(2)
proof (induction stream arbitrary: w script crawls ev)
  case Nil
  then show ?case by auto
next
  case (Cons a stream)
  show ?case
  proof (cases a)
    case RaiseChannelPrivateError
    then show ?thesis using Cons.prems by auto
  next
    case (Yield message)
    from iter_step[OF Cons.prems[unfolded Yield] assms(1)]
    consider
      (broke) "x = Broke" "cs' = cs" "f' = crawls" "ev = [Fetched message]"
    | (skip) ev' where "iter_messages self e chat_id lo hi nl stream cs w script crawls = Inr (x, cs', w', s', f', ev')"
        "ev = Fetched message # ev'"
    | (stop) status f1 where "message_should_be_skipped self cs message lo hi = Inr (False, cs)"
        "baseline_store_crawl_state crawls cs = Inr f1" "x = UserStop" "cs' = cs" "f' = f1"
        "ev = [Fetched message, Handled message status, Persisted (to_json cs)]"
    | (go) status w1 s1 f1 ev' where "message_should_be_skipped self cs message lo hi = Inr (False, cs)"
        "baseline_store_crawl_state crawls cs = Inr f1"
        "iter_messages self e chat_id lo hi nl stream cs w1 s1 f1 = Inr (x, cs', w', s', f', ev')"
        "ev = [Fetched message, Handled message status, Persisted (to_json cs)] @ ev'"
      by blast
    then show ?thesis
    proof cases
      case broke
      then show ?thesis by simp
    next
      case skip
      then show ?thesis using Cons.IH[OF skip(1)] by simp
    next
      case stop
      then show ?thesis using store_grows[OF stop(2)] by simp
    next
      case go
      then show ?thesis using Cons.IH[OF go(3)] store_grows[OF go(2)] by simp
    qed
  qed
qed

lemma persisted_before_next_fetch_append:
  "persisted_before_next_fetch es \<Longrightarrow> persisted_before_next_fetch (es @ es')"
  by (induction es rule: persisted_before_next_fetch.induct) auto

lemma checkpoint_after_every_handled_append:
  "checkpoint_after_every_handled es \<Longrightarrow> checkpoint_after_every_handled (es @ [Persisted p])"
  by (induction es rule: checkpoint_after_every_handled.induct)
     (auto simp: persisted_before_next_fetch_append)

lemma handled_messages_append_persisted:
  "handled_messages (es @ [Persisted p]) = handled_messages es"
  by (induction es rule: handled_messages.induct) auto


lemma pop_store_return_ok:
  assumes "inherits_store self" "chats_to_search cs = front # queue" "index cs \<le> length crawls"
  shows "\<exists>f'. pop_store_return self cs w script crawls ev =
           Inr (0, cs\<lparr>chats_to_search := queue\<rparr>, w, script, f',
                ev @ [Persisted (to_json (cs\<lparr>chats_to_search := queue\<rparr>))])
         \<and> index cs < length f' \<and> f' ! index cs = to_json (cs\<lparr>chats_to_search := queue\<rparr>)"
proof -
  let ?cs = "cs\<lparr>chats_to_search := queue\<rparr>"
  have "\<exists>f'. baseline_store_crawl_state crawls ?cs = Inr f'"
    using assms(3) by (auto simp: baseline_store_crawl_state_def)
  then obtain f' where st: "baseline_store_crawl_state crawls ?cs = Inr f'" by blast
  from store_grows[OF st] have "index cs < length f' \<and> f' ! index cs = to_json ?cs" by simp
  moreover have "pop_store_return self cs w script crawls ev =
           Inr (0, ?cs, w, script, f', ev @ [Persisted (to_json ?cs)])"
    using assms(1,2) st by (simp add: pop_store_return_def pop_front_def store_inherited Let_def)
  ultimately show ?thesis by blast
qed

text \<open>
  The access-denied exit for the crawlers that inherit \<open>store_crawl_state\<close>: when the
  iteration over the chat's messages ends with \<open>ChannelPrivateError\<close>, the queue is not
  empty and the state's index is a slot of the JSON collection (or the next one),
  \<open>handle_chat\<close> returns 0; the chat id is appended to \<open>chats_not_searchable\<close> (created
  when absent), the front of the queue is removed, nothing else of the crawl state
  changes, and the state is written to the collection at its index as the last event.
\<close>

theorem handle_chat_access_denied:
  assumes base: "inherits_store self"
    and denied: "iter_messages self e chat_id (min_date cs) (max_date cs) (no_labeling_mode cs)
                   stream cs w script crawls = Inr (AccessDenied, cs1, w1, script1, crawls1, trace)"
    and queue: "chats_to_search cs = front # queue"
    and slot: "index cs \<le> length crawls"
  shows "\<exists>cs' crawls'.
           handle_chat self e chat_id stream cs w script crawls =
             Inr (0, cs', w1, script1, crawls', trace @ [Persisted (to_json cs')])
           \<and> cs' = cs\<lparr>chats_not_searchable :=
                        Some ((case chats_not_searchable cs of None \<Rightarrow> [] | Some l \<Rightarrow> l) @ [chat_id]),
                      chats_to_search := queue\<rparr>
           \<and> index cs < length crawls' \<and> crawls' ! index cs = to_json cs'"
proof -
  from iter_invariant[OF base denied] have inv: "cs1 = cs" "length crawls \<le> length crawls1" by auto
  let ?cs2 = "cs\<lparr>chats_not_searchable :=
                  Some ((case chats_not_searchable cs of None \<Rightarrow> [] | Some l \<Rightarrow> l) @ [chat_id])\<rparr>"
  have q: "chats_to_search ?cs2 = front # queue" using queue by simp
  have sl: "index ?cs2 \<le> length crawls1" using slot inv(2) by simp
  from pop_store_return_ok[OF base q sl, of w1 script1 trace]
  obtain f' where r: "pop_store_return self ?cs2 w1 script1 crawls1 trace =
           Inr (0, ?cs2\<lparr>chats_to_search := queue\<rparr>, w1, script1, f',
                trace @ [Persisted (to_json (?cs2\<lparr>chats_to_search := queue\<rparr>))])"
    and p: "index ?cs2 < length f'" "f' ! index ?cs2 = to_json (?cs2\<lparr>chats_to_search := queue\<rparr>)"
    by blast
  have "handle_chat self e chat_id stream cs w script crawls =
          pop_store_return self ?cs2 w1 script1 crawls1 trace"
    using denied inv(1) by (simp add: handle_chat_def Let_def)
  then show ?thesis using r p by simp
qed

theorem handle_chat_access_denied_witness:
  "inherits_store BaselineCrawler
   \<and> iter_messages BaselineCrawler example_env 100 (min_date fresh_crawl) (max_date fresh_crawl)
        (no_labeling_mode fresh_crawl) [RaiseChannelPrivateError] fresh_crawl example_world [] [] =
       Inr (AccessDenied, fresh_crawl, example_world, [], [], [])
   \<and> chats_to_search fresh_crawl = [100]
   \<and> index fresh_crawl \<le> length ([] :: string crawl_state list)
   \<and> handle_chat BaselineCrawler example_env 100 [RaiseChannelPrivateError] fresh_crawl
        example_world [] [] =
       Inr (0, fresh_crawl\<lparr>chats_not_searchable := Some [100], chats_to_search := []\<rparr>,
            example_world, [],
            [to_json (fresh_crawl\<lparr>chats_not_searchable := Some [100], chats_to_search := []\<rparr>)],
            [Persisted (to_json (fresh_crawl\<lparr>chats_not_searchable := Some [100],
                                              chats_to_search := []\<rparr>))])"
proof -
  have base: "inherits_store BaselineCrawler" by (simp add: inherits_store_def)
  have denied: "iter_messages BaselineCrawler example_env 100 (min_date fresh_crawl)
        (max_date fresh_crawl) (no_labeling_mode fresh_crawl) [RaiseChannelPrivateError]
        fresh_crawl example_world [] [] = Inr (AccessDenied, fresh_crawl, example_world, [], [], [])"
    by simp
  have queue: "chats_to_search fresh_crawl = 100 # []" by (simp add: fresh_crawl_def)
  have slot: "index fresh_crawl \<le> length ([] :: string crawl_state list)"
    by (simp add: fresh_crawl_def)
  from handle_chat_access_denied[OF base denied queue slot]
  obtain cs' crawls' where r:
    "handle_chat BaselineCrawler example_env 100 [RaiseChannelPrivateError] fresh_crawl
       example_world [] [] = Inr (0, cs', example_world, [], crawls', [] @ [Persisted (to_json cs')])"
    and c: "cs' = fresh_crawl\<lparr>chats_not_searchable :=
                Some ((case chats_not_searchable fresh_crawl of None \<Rightarrow> [] | Some l \<Rightarrow> l) @ [100]),
              chats_to_search := []\<rparr>"
    and p: "index fresh_crawl < length crawls'" "crawls' ! index fresh_crawl = to_json cs'"
    by blast
  have c': "cs' = fresh_crawl\<lparr>chats_not_searchable := Some [100], chats_to_search := []\<rparr>"
    using c by (simp add: fresh_crawl_def)
  have "handle_chat BaselineCrawler example_env 100 [RaiseChannelPrivateError] fresh_crawl
          example_world [] [] = Inr (0, cs', example_world, [], [to_json cs'], [Persisted (to_json cs')])"
    by (simp add: handle_chat_def Let_def pop_store_return_def pop_front_def store_crawl_state_def
          baseline_store_crawl_state_def c' fresh_crawl_def)
  then show ?thesis using base denied queue slot c' r by simp
qed

text \<open>
  Claim C5, evaluated for the model-based crawler. Its \<open>store_crawl_state\<close> takes three
  arguments and the access-denied branch passes one: the call raises \<open>TypeError\<close> after
  the chat was recorded and the queue front removed in memory. \<open>handle_chat\<close> neither
  writes the state nor returns 0, for the run over chat 100 and for every state with a
  non-empty queue.
\<close>

theorem model_based_access_denied_raises:
  "handle_chat model_based_crawler example_env 100 [RaiseChannelPrivateError] classified_crawl
     empty_world [] [] = Inl TypeError
   \<and> chats_to_search classified_crawl = [100]
   \<and> handle_chat (BinaryClassifierCrawler base_model model_directory classify) e chat_id
        (RaiseChannelPrivateError # rest) (cs\<lparr>chats_to_search := front # queue\<rparr>) w script crawls =
       Inl TypeError"
  by (simp add: handle_chat_def Let_def pop_store_return_def pop_front_def store_crawl_state_def
        model_based_crawler_def classified_crawl_def fresh_crawl_def)

text \<open>
  The exit after a completed iteration, for the crawlers that inherit \<open>store_crawl_state\<close>:
  when the iteration for the chat at the front of the queue ends because the messages are
  exhausted or the stop condition fired (no user stop, no access failure), \<open>handle_chat\<close>
  returns 0 and the chat id has moved from the front of the queue to the end of
  \<open>chats_searched\<close> when \<open>max_date\<close> is set, and to the back of the queue when it is not;
  exactly the front element has left the front, and the state is written to the
  collection at its index.
\<close>

theorem handle_chat_completes_chat:
  assumes base: "inherits_store self"
    and fin: "iter_messages self e chat_id (min_date cs) (max_date cs) (no_labeling_mode cs)
                 stream cs w script crawls = Inr (x, cs1, w1, script1, crawls1, trace)"
    and ex: "x = Exhausted \<or> x = Broke"
    and queue: "chats_to_search cs = chat_id # queue"
    and slot: "index cs \<le> length crawls"
  shows "\<exists>cs' crawls'.
           handle_chat self e chat_id stream cs w script crawls =
             Inr (0, cs', w1, script1, crawls', trace @ [Persisted (to_json cs')])
           \<and> cs' = (if max_date cs \<noteq> None
                    then cs\<lparr>chats_searched := chats_searched cs @ [chat_id], chats_to_search := queue\<rparr>
                    else cs\<lparr>chats_to_search := queue @ [chat_id]\<rparr>)
           \<and> index cs < length crawls' \<and> crawls' ! index cs = to_json cs'"
proof -
  from iter_invariant[OF base fin] have inv: "cs1 = cs" "length crawls \<le> length crawls1" by auto
  let ?cs2 = "if max_date cs \<noteq> None then cs\<lparr>chats_searched := chats_searched cs @ [chat_id]\<rparr>
              else cs\<lparr>chats_to_search := chats_to_search cs @ [chat_id]\<rparr>"
  let ?q = "if max_date cs \<noteq> None then queue else queue @ [chat_id]"
  have q: "chats_to_search ?cs2 = chat_id # ?q" using queue by simp
  have sl: "index ?cs2 \<le> length crawls1" using slot inv(2) by simp
  from pop_store_return_ok[OF base q sl, of w1 script1 trace]
  obtain f' where r: "pop_store_return self ?cs2 w1 script1 crawls1 trace =
           Inr (0, ?cs2\<lparr>chats_to_search := ?q\<rparr>, w1, script1, f',
                trace @ [Persisted (to_json (?cs2\<lparr>chats_to_search := ?q\<rparr>))])"
    and p: "index ?cs2 < length f'" "f' ! index ?cs2 = to_json (?cs2\<lparr>chats_to_search := ?q\<rparr>)"
    by blast
  have "handle_chat self e chat_id stream cs w script crawls =
          pop_store_return self ?cs2 w1 script1 crawls1 trace"
    using fin inv(1) ex by (auto simp: handle_chat_def Let_def)
  then show ?thesis using r p by (auto split: if_splits)
qed

theorem handle_chat_completes_chat_witness:
  "inherits_store BaselineCrawler
   \<and> iter_messages BaselineCrawler example_env 100 (min_date fresh_crawl) (max_date fresh_crawl)
        (no_labeling_mode fresh_crawl) [Yield message_without_text] fresh_crawl example_world [] [] =
       Inr (Exhausted, fresh_crawl, example_world, [], [], [Fetched message_without_text])
   \<and> chats_to_search fresh_crawl = [100]
   \<and> index fresh_crawl \<le> length ([] :: string crawl_state list)
   \<and> max_date fresh_crawl \<noteq> None
   \<and> (\<exists>crawls'. handle_chat BaselineCrawler example_env 100 [Yield message_without_text]
          fresh_crawl example_world [] [] =
        Inr (0, fresh_crawl\<lparr>chats_searched := [100], chats_to_search := []\<rparr>, example_world, [],
             crawls',
             [Fetched message_without_text,
              Persisted (to_json (fresh_crawl\<lparr>chats_searched := [100], chats_to_search := []\<rparr>))])
        \<and> crawls' ! 0 = to_json (fresh_crawl\<lparr>chats_searched := [100], chats_to_search := []\<rparr>))"
proof -
  have base: "inherits_store BaselineCrawler" by (simp add: inherits_store_def)
  have fin: "iter_messages BaselineCrawler example_env 100 (min_date fresh_crawl)
        (max_date fresh_crawl) (no_labeling_mode fresh_crawl) [Yield message_without_text]
        fresh_crawl example_world [] [] =
       Inr (Exhausted, fresh_crawl, example_world, [], [], [Fetched message_without_text])"
    by (simp add: crawl_should_be_stopped_def baseline_crawl_should_be_stopped_def
          message_should_be_skipped_def baseline_message_should_be_skipped_def with_events_def
          fresh_crawl_def message_without_text_def)
  have ex: "Exhausted = Exhausted \<or> Exhausted = Broke" by simp
  have queue: "chats_to_search fresh_crawl = 100 # []" by (simp add: fresh_crawl_def)
  have slot: "index fresh_crawl \<le> length ([] :: string crawl_state list)"
    by (simp add: fresh_crawl_def)
  have bounded: "max_date fresh_crawl \<noteq> None" by (simp add: fresh_crawl_def)
  from handle_chat_completes_chat[OF base fin ex queue slot]
  obtain cs' crawls' where r:
    "handle_chat BaselineCrawler example_env 100 [Yield message_without_text] fresh_crawl
       example_world [] [] =
     Inr (0, cs', example_world, [], crawls', [Fetched message_without_text] @ [Persisted (to_json cs')])"
    and c: "cs' = (if max_date fresh_crawl \<noteq> None
                   then fresh_crawl\<lparr>chats_searched := chats_searched fresh_crawl @ [100],
                                     chats_to_search := []\<rparr>
                   else fresh_crawl\<lparr>chats_to_search := [] @ [100]\<rparr>)"
    and p: "crawls' ! index fresh_crawl = to_json cs'"
    by blast
  have c': "cs' = fresh_crawl\<lparr>chats_searched := [100], chats_to_search := []\<rparr>"
    using c by (simp add: fresh_crawl_def)
  have i0: "index fresh_crawl = 0" by (simp add: fresh_crawl_def)
  show ?thesis using base fin queue slot bounded r p c' i0 by auto
qed

lemma model_based_no_user_stop:
  "iter_messages (BinaryClassifierCrawler base_model model_directory classify) e chat_id lo hi nl
     stream cs w script crawls \<noteq> Inr (UserStop, r)"
proof (induction stream arbitrary: cs w script crawls r)
  case Nil
  then show ?case by simp
next
  case (Cons a stream)
  show ?case
  proof (cases a)
    case RaiseChannelPrivateError
    then show ?thesis by simp
  next
    case (Yield message)
    then show ?thesis using Cons.IH
      by (auto simp: store_crawl_state_def with_events_def
               split: sum.splits prod.splits bool.splits option.splits)
  qed
qed

text \<open>
  Claim C6, evaluated for the model-based crawler. After a completed iteration the chat
  id is moved in memory and \<open>store_crawl_state\<close> is called with one argument, which raises
  \<open>TypeError\<close>: for the run over chat 100 whose iterator is exhausted at once, for every
  state with the chat at the queue front, and, whatever the messages are, \<open>handle_chat\<close>
  of this crawler ends in an exception.
\<close>

theorem model_based_completion_raises:
  "handle_chat model_based_crawler example_env 100 [] classified_crawl empty_world [] [] =
     Inl TypeError
   \<and> chats_to_search classified_crawl = [100]
   \<and> handle_chat (BinaryClassifierCrawler base_model model_directory classify) e chat_id []
        (cs\<lparr>chats_to_search := chat_id # queue\<rparr>) w script crawls = Inl TypeError
   \<and> (\<exists>err. handle_chat (BinaryClassifierCrawler base_model model_directory classify) e chat_id
               stream cs w script crawls = Inl err)"
proof -
  let ?self = "BinaryClassifierCrawler base_model model_directory classify"
  have ps: "\<And>c w1 s1 f1 ev. \<exists>err. pop_store_return ?self c w1 s1 f1 ev = Inl err"
    by (simp add: pop_store_return_def pop_front_def store_crawl_state_def Let_def
             split: list.splits)
  have "\<exists>err. handle_chat ?self e chat_id stream cs w script crawls = Inl err"
  proof (cases "iter_messages ?self e chat_id (min_date cs) (max_date cs) (no_labeling_mode cs)
                  stream cs w script crawls")
    case (Inl err)
    then show ?thesis by (simp add: handle_chat_def Let_def)
  next
    case (Inr res)
    obtain x cs1 w1 s1 f1 ev where res: "res = (x, cs1, w1, s1, f1, ev)" by (cases res) auto
    have "x \<noteq> UserStop" using Inr res model_based_no_user_stop by blast
    then show ?thesis using Inr res ps by (cases x) (simp_all add: handle_chat_def Let_def)
  qed
  moreover have "handle_chat model_based_crawler example_env 100 [] classified_crawl empty_world [] [] =
     Inl TypeError \<and> chats_to_search classified_crawl = [100]"
    by (simp add: handle_chat_def Let_def pop_store_return_def pop_front_def store_crawl_state_def
          model_based_crawler_def classified_crawl_def fresh_crawl_def july_15_def)
  moreover have "handle_chat ?self e chat_id [] (cs\<lparr>chats_to_search := chat_id # queue\<rparr>) w script crawls =
       Inl TypeError"
    by (simp add: handle_chat_def Let_def pop_store_return_def pop_front_def store_crawl_state_def)
  ultimately show ?thesis by blast
qed

lemma pop_store_return_trace:
  assumes "inherits_store self"
    and "pop_store_return self cs w script crawls ev = Inr (r, cs', w', s', f', ev')"
  shows "ev' = ev @ [Persisted (to_json cs')] \<and> index cs' < length f' \<and> f' ! index cs' = to_json cs'"
  using assms store_grows
  by (auto simp: pop_store_return_def store_inherited Let_def split: sum.splits)

lemma handle_chat_trace:
  assumes base: "inherits_store self"
    and run: "handle_chat self e chat_id stream cs w script crawls = Inr (r, cs', w', script', crawls', trace)"
  shows "checkpoint_after_every_handled trace
         \<and> index cs' < length crawls' \<and> crawls' ! index cs' = to_json cs'
         \<and> (\<forall>m \<in> set (handled_messages trace).
               message_should_be_skipped self cs m (min_date cs) (max_date cs) = Inr (False, cs))"
proof -
  obtain x cs1 w1 s1 f1 ev where it:
    "iter_messages self e chat_id (min_date cs) (max_date cs) (no_labeling_mode cs)
       stream cs w script crawls = Inr (x, cs1, w1, s1, f1, ev)"
    using run by (auto simp: handle_chat_def Let_def split: sum.splits)
  from iter_invariant[OF base it] have inv: "cs1 = cs" "checkpoint_after_every_handled ev"
    "\<forall>m \<in> set (handled_messages ev).
        message_should_be_skipped self cs m (min_date cs) (max_date cs) = Inr (False, cs)"
    "x = UserStop \<longrightarrow> index cs < length f1 \<and> f1 ! index cs = to_json cs" by auto
  show ?thesis
  proof (cases "x = UserStop")
    case True
    then have "cs' = cs" "crawls' = f1" "trace = ev"
      using run it inv(1) by (auto simp: handle_chat_def Let_def)
    then show ?thesis using inv True by simp
  next
    case False
    then obtain cs2 where "pop_store_return self cs2 w1 s1 f1 ev = Inr (r, cs', w', script', crawls', trace)"
      using run it by (cases x) (auto simp: handle_chat_def Let_def)
    from pop_store_return_trace[OF base this]
    show ?thesis using inv(2,3)
      by (simp add: checkpoint_after_every_handled_append handled_messages_append_persisted)
  qed
qed

section \<open>Evaluating runs\<close>

lemmas run_defs = handle_chat_def Let_def crawl_should_be_stopped_def message_should_be_skipped_def
  baseline_crawl_should_be_stopped_def baseline_message_should_be_skipped_def handle_message_def
  no_labeling_handle_message_def from_telethon_message_def get_or_create_by_id_def get_hash_def
  website_of_def handler_message_should_be_skipped_def duplicate_exists_def save_force_insert_def
  store_crawl_state_def baseline_store_crawl_state_def with_events_def pop_store_return_def pop_front_def
  dt_less_def dt_fields_def

section \<open>Chat discovery\<close>


section \<open>Checkpoints\<close>

text \<open>
  Claim C2 as stated fails: the baseline crawler fetches a message without text, skips it
  with \<open>continue\<close>, and fetches the next message without any write of the crawl state in
  between.
\<close>

theorem skipped_message_not_checkpointed:
  "handle_chat BaselineCrawler example_env 100 [Yield message_without_text, Yield message_with_text]
     fresh_crawl empty_world [] [] =
   Inr (0, fresh_crawl\<lparr>chats_searched := [100], chats_to_search := []\<rparr>,
        empty_world\<lparr>chats := [100], messages := [stored_message]\<rparr>, [],
        [to_json (fresh_crawl\<lparr>chats_searched := [100], chats_to_search := []\<rparr>)],
        [Fetched message_without_text, Fetched message_with_text,
         Handled message_with_text ''message stored without labels'',
         Persisted (to_json fresh_crawl),
         Persisted (to_json (fresh_crawl\<lparr>chats_searched := [100], chats_to_search := []\<rparr>))])
   \<and> \<not> checkpoint_after_every_fetch
        [Fetched message_without_text, Fetched message_with_text,
         Handled message_with_text ''message stored without labels'',
         Persisted (to_json fresh_crawl),
         Persisted (to_json (fresh_crawl\<lparr>chats_searched := [100], chats_to_search := []\<rparr>))]"
  by (simp add: run_defs example_env_def message_without_text_def message_with_text_def
        fresh_crawl_def empty_world_def july_15_def stored_message_def)

text \<open>
  Claim C2, amended. For the crawlers that inherit \<open>store_crawl_state\<close> and for both
  labeling modes. When a message passes the stop and the skip test and the message handler
  returns, the crawl state is written at its index in the JSON collection, and only
  then the loop ends (on the user's stop) or goes on with the remaining messages, on the
  written collection. In every run of \<open>handle_chat\<close> that returns, each message handed to
  the message handler is followed by a write of the crawl state before the next message
  is fetched, and on return the record at the state's index in the JSON collection is the
  returned state.
\<close>

theorem handled_message_checkpointed:
  assumes base: "inherits_store self"
  shows "(handle_chat self e chat_id stream cs w script crawls =
            Inr (r, cs', w', script', crawls', trace)
          \<longrightarrow> checkpoint_after_every_handled trace
              \<and> index cs' < length crawls' \<and> crawls' ! index cs' = to_json cs')
       \<and> (\<not> crawl_should_be_stopped self cs m lo hi
          \<and> message_should_be_skipped self cs m lo hi = Inr (False, cs1)
          \<and> handle_message e nl w script m = Inr (status, hm, w1, script1)
          \<and> index cs \<le> length crawls
          \<longrightarrow> (\<exists>crawls1.
                 store_crawl_state self crawls cs = Inr crawls1
                 \<and> index cs < length crawls1 \<and> crawls1 ! index cs = to_json cs
                 \<and> iter_messages self e chat_id lo hi nl (Yield m # rest) cs w script crawls =
                     (if no_labeling_mode cs = False \<and> status = ''stop crawl''
                      then Inr (UserStop, cs, w1, script1, crawls1,
                                [Fetched m, Handled m status, Persisted (to_json cs)])
                      else with_events [Fetched m, Handled m status, Persisted (to_json cs)]
                             (iter_messages self e chat_id lo hi nl rest cs w1 script1 crawls1))))"
proof (rule conjI; rule impI)
  assume run: "handle_chat self e chat_id stream cs w script crawls =
            Inr (r, cs', w', script', crawls', trace)"
  from handle_chat_trace[OF base run]
  show "checkpoint_after_every_handled trace
        \<and> index cs' < length crawls' \<and> crawls' ! index cs' = to_json cs'" by simp
next
  assume a: "\<not> crawl_should_be_stopped self cs m lo hi
          \<and> message_should_be_skipped self cs m lo hi = Inr (False, cs1)
          \<and> handle_message e nl w script m = Inr (status, hm, w1, script1)
          \<and> index cs \<le> length crawls"
  then have eq: "cs1 = cs" using skip_keeps_state[OF base] by blast
  have "\<exists>f. baseline_store_crawl_state crawls cs = Inr f"
    using a by (auto simp: baseline_store_crawl_state_def)
  then obtain crawls1 where st: "baseline_store_crawl_state crawls cs = Inr crawls1" by blast
  from store_grows[OF st] have g: "index cs < length crawls1" "crawls1 ! index cs = to_json cs"
    by simp_all
  have st': "store_crawl_state self crawls cs = Inr crawls1" using st store_inherited[OF base] by simp
  have "iter_messages self e chat_id lo hi nl (Yield m # rest) cs w script crawls =
          (if no_labeling_mode cs = False \<and> status = ''stop crawl''
           then Inr (UserStop, cs, w1, script1, crawls1,
                     [Fetched m, Handled m status, Persisted (to_json cs)])
           else with_events [Fetched m, Handled m status, Persisted (to_json cs)]
                  (iter_messages self e chat_id lo hi nl rest cs w1 script1 crawls1))"
    using a eq st' by (simp add: discovery_step_eq)
  then show "\<exists>crawls1.
                 store_crawl_state self crawls cs = Inr crawls1
                 \<and> index cs < length crawls1 \<and> crawls1 ! index cs = to_json cs
                 \<and> iter_messages self e chat_id lo hi nl (Yield m # rest) cs w script crawls =
                     (if no_labeling_mode cs = False \<and> status = ''stop crawl''
                      then Inr (UserStop, cs, w1, script1, crawls1,
                                [Fetched m, Handled m status, Persisted (to_json cs)])
                      else with_events [Fetched m, Handled m status, Persisted (to_json cs)]
                             (iter_messages self e chat_id lo hi nl rest cs w1 script1 crawls1))"
    using st' g by blast
qed

theorem handled_message_checkpointed_witness:
  "inherits_store BaselineCrawler
   \<and> handle_chat BaselineCrawler example_env 100 [Yield message_without_text, Yield message_with_text]
        fresh_crawl empty_world [] [] =
      Inr (0, fresh_crawl\<lparr>chats_searched := [100], chats_to_search := []\<rparr>,
        empty_world\<lparr>chats := [100], messages := [stored_message]\<rparr>, [],
        [to_json (fresh_crawl\<lparr>chats_searched := [100], chats_to_search := []\<rparr>)],
        [Fetched message_without_text, Fetched message_with_text,
         Handled message_with_text ''message stored without labels'',
         Persisted (to_json fresh_crawl),
         Persisted (to_json (fresh_crawl\<lparr>chats_searched := [100], chats_to_search := []\<rparr>))])
   \<and> checkpoint_after_every_handled
        [Fetched message_without_text, Fetched message_with_text,
         Handled message_with_text ''message stored without labels'',
         Persisted (to_json fresh_crawl),
         Persisted (to_json (fresh_crawl\<lparr>chats_searched := [100], chats_to_search := []\<rparr>))]
   \<and> \<not> crawl_should_be_stopped BaselineCrawler fresh_crawl message_with_text None (Some july_15)
   \<and> message_should_be_skipped BaselineCrawler fresh_crawl message_with_text None (Some july_15) =
       Inr (False, fresh_crawl)
   \<and> handle_message example_env True empty_world [] message_with_text =
       Inr (''message stored without labels'', refetched_stored_message, one_message_world, [])
   \<and> index fresh_crawl \<le> length ([] :: string crawl_state list)
   \<and> store_crawl_state BaselineCrawler [] fresh_crawl = Inr [to_json fresh_crawl]
   \<and> iter_messages BaselineCrawler example_env 100 None (Some july_15) True
        [Yield message_with_text, Yield message_without_text] fresh_crawl empty_world [] [] =
       with_events [Fetched message_with_text,
                    Handled message_with_text ''message stored without labels'',
                    Persisted (to_json fresh_crawl)]
         (iter_messages BaselineCrawler example_env 100 None (Some july_15) True
            [Yield message_without_text] fresh_crawl one_message_world [] [to_json fresh_crawl])"
proof -
  have base: "inherits_store BaselineCrawler" by (simp add: inherits_store_def)
  note inst = handled_message_checkpointed[OF base, where e = example_env and chat_id = 100 and cs = fresh_crawl
      and w = empty_world and script = "[]" and crawls = "[]"]
  have run: "handle_chat BaselineCrawler example_env 100 [Yield message_without_text, Yield message_with_text]
        fresh_crawl empty_world [] [] =
      Inr (0, fresh_crawl\<lparr>chats_searched := [100], chats_to_search := []\<rparr>,
        empty_world\<lparr>chats := [100], messages := [stored_message]\<rparr>, [],
        [to_json (fresh_crawl\<lparr>chats_searched := [100], chats_to_search := []\<rparr>)],
        [Fetched message_without_text, Fetched message_with_text,
         Handled message_with_text ''message stored without labels'',
         Persisted (to_json fresh_crawl),
         Persisted (to_json (fresh_crawl\<lparr>chats_searched := [100], chats_to_search := []\<rparr>))])"
    by (simp add: run_defs example_env_def message_without_text_def message_with_text_def
        fresh_crawl_def empty_world_def july_15_def stored_message_def)
  from inst[where stream = "[Yield message_without_text, Yield message_with_text]"] run
  have c1: "checkpoint_after_every_handled
        [Fetched message_without_text, Fetched message_with_text,
         Handled message_with_text ''message stored without labels'',
         Persisted (to_json fresh_crawl),
         Persisted (to_json (fresh_crawl\<lparr>chats_searched := [100], chats_to_search := []\<rparr>))]"
    by blast
  have s: "\<not> crawl_should_be_stopped BaselineCrawler fresh_crawl message_with_text None (Some july_15)"
    by (simp add: crawl_should_be_stopped_def baseline_crawl_should_be_stopped_def)
  have k: "message_should_be_skipped BaselineCrawler fresh_crawl message_with_text None (Some july_15) =
       Inr (False, fresh_crawl)"
    by (simp add: message_should_be_skipped_def baseline_message_should_be_skipped_def
          message_with_text_def dt_less_def dt_fields_def july_15_def)
  have h: "handle_message example_env True empty_world [] message_with_text =
       Inr (''message stored without labels'', refetched_stored_message, one_message_world, [])"
    by (simp add: run_defs example_env_def message_with_text_def empty_world_def
          refetched_stored_message_def one_message_world_def stored_message_def)
  have i: "index fresh_crawl \<le> length ([] :: string crawl_state list)" by (simp add: fresh_crawl_def)
  have st: "store_crawl_state BaselineCrawler [] fresh_crawl = Inr [to_json fresh_crawl]"
    by (simp add: store_crawl_state_def baseline_store_crawl_state_def fresh_crawl_def)
  have nl: "no_labeling_mode fresh_crawl = True" by (simp add: fresh_crawl_def)
  from inst[where m = message_with_text and lo = None and hi = "Some july_15" and ?cs1.0 = fresh_crawl
      and nl = True and status = "''message stored without labels''" and hm = refetched_stored_message
      and ?w1.0 = one_message_world and ?script1.0 = "[]" and rest = "[Yield message_without_text]"]
    s k h i st nl
  have c2: "iter_messages BaselineCrawler example_env 100 None (Some july_15) True
        [Yield message_with_text, Yield message_without_text] fresh_crawl empty_world [] [] =
       with_events [Fetched message_with_text,
                    Handled message_with_text ''message stored without labels'',
                    Persisted (to_json fresh_crawl)]
         (iter_messages BaselineCrawler example_env 100 None (Some july_15) True
            [Yield message_without_text] fresh_crawl one_message_world [] [to_json fresh_crawl])"
    by auto
  show ?thesis using base run c1 s k h i st c2 by simp
qed

section \<open>Failures while handling one message\<close>





section \<open>Resuming a crawl\<close>

lemmas resume_defs = retrieve_or_initialize_crawl_state_def
  baseline_retrieve_or_initialize_crawl_state_def eval_filter_def eval_literal_def
  py_repr_str_def repr_char_def single_quote_def double_quote_def backslash_def printable_def
  name_follows_def is_name_start_def is_name_char_def Let_def str_opt_def str_datetime_def
  pad2_def pad4_def pad6_def digit_char_def resume_crawl_def to_json_def
  store_crawl_state_def baseline_store_crawl_state_def

text \<open>
  Claim C7, evaluated for the keyword crawler with the single keyword \<open>don't\<close>. The first
  call, on an empty collection, creates the state at index 0 and the state is written.
  The second call, with the same arguments, builds the filter
  \<open>... and str(c["keywords"]) == "["don't"]"\<close>: the \<open>repr\<close> of the keyword takes double
  quotes, the literal ends after \<open>[\<close>, and \<open>eval\<close> raises \<open>SyntaxError\<close> where the stored
  crawl should be resumed. With the keywords \<open>abc\<close> and \<open>xyz\<close> the second call resumes
  the stored crawl.
\<close>

theorem resume_raises_on_apostrophe_keyword:
  "retrieve_or_initialize_crawl_state (KeywordSearchCrawler apostrophe_keywords) ''t0'' []
     [100] None (Some july_15) True = Inr (keyword_crawl apostrophe_keywords)
   \<and> store_crawl_state (KeywordSearchCrawler apostrophe_keywords) []
        (keyword_crawl apostrophe_keywords) = Inr [to_json (keyword_crawl apostrophe_keywords)]
   \<and> retrieve_or_initialize_crawl_state (KeywordSearchCrawler apostrophe_keywords) ''t1''
        [to_json (keyword_crawl apostrophe_keywords)] [100] None (Some july_15) True =
       Inl SyntaxError
   \<and> retrieve_or_initialize_crawl_state (KeywordSearchCrawler [''abc'', ''xyz'']) ''t1''
        [to_json (keyword_crawl [''abc'', ''xyz''])] [100] None (Some july_15) True =
       Inr (keyword_crawl [''abc'', ''xyz''])"
  by (simp add: resume_defs keyword_crawl_def apostrophe_keywords_def july_15_def)

section \<open>Re-labeling\<close>

lemmas label_defs = labeling_handle_message_def from_telethon_message_def
  get_or_create_by_id_def get_hash_def website_of_def labeling_message_should_be_skipped_def
  handler_message_should_be_skipped_def duplicate_exists_def save_row_def refresh_def
  get_topic_and_misconception_labels_from_user_def store_message_and_labels_def
  delete_labels_def create_message_misconception_def create_message_topic_def Let_def

text \<open>
  Claim C10, evaluated for the stored message of chat 100 that has the labels topic 1 and
  misconception 3. Labeled again with topic 2 and misconception 5 selected,
  \<open>label_and_store_message\<close> reads \<open>status\<close> unassigned and raises \<open>UnboundLocalError\<close>
  before the delete statements: the old labels stay and the new ones are not written,
  called on the stored message and through \<open>handle_message\<close> with
  \<open>skip_messages_already_stored=False\<close> alike. With an empty selection confirmed by the
  first menu entry the old labels are deleted and the one row without misconception is
  written.
\<close>

theorem relabeling_with_labels_raises:
  "message_topics labelled_world = [(100, ''h1'', 1)]
   \<and> message_misconceptions labelled_world = [(100, ''h1'', Some 3)]
   \<and> stored_message \<in> set (messages labelled_world)
   \<and> hash stored_message = hash refetched_stored_message
   \<and> picks full_selection = [(2, [5])]
   \<and> label_and_store_message refetched_stored_message labelled_world [full_selection] =
       Inl UnboundLocalError
   \<and> labeling_handle_message example_env labelled_world [full_selection] message_with_text False =
       Inl UnboundLocalError
   \<and> label_and_store_message refetched_stored_message labelled_world [confirmed_empty_selection] =
       Inr (''message stored without labels'',
            labelled_world\<lparr>message_topics := [],
                             message_misconceptions := [(100, ''h1'', None)]\<rparr>, [])
   \<and> labeling_handle_message example_env labelled_world [confirmed_empty_selection]
        message_with_text False =
       Inr (''message stored without labels'', refetched_stored_message,
            labelled_world\<lparr>message_topics := [],
                             message_misconceptions := [(100, ''h1'', None)]\<rparr>, [])"
  by (simp add: label_defs labelled_world_def one_message_world_def empty_world_def
        stored_message_def example_env_def message_with_text_def full_selection_def
        confirmed_empty_selection_def refetched_stored_message_def july_15_def)

section \<open>The keyword filter\<close>

lemma keyword_skip_iff:
  "keyword_message_should_be_skipped kws m lo hi = False \<longleftrightarrow>
     (\<not> baseline_message_should_be_skipped m lo hi
      \<and> (\<exists>text. tm_message m = Some text \<and> (\<exists>k \<in> set kws. \<exists>ps ss. text = ps @ k @ ss)))"
  by (auto simp: keyword_message_should_be_skipped_def keyword_loop_iff str_contains_iff
           split: option.splits)

text \<open>
  Claim C8. \<open>KeywordSearchCrawler.message_should_be_skipped\<close> returns \<open>False\<close> exactly when
  none of the baseline skip conditions holds and the text contains one of the keywords as
  a contiguous, case-sensitive substring. A message for which it returns \<open>True\<close> is passed
  over by the loop of \<open>handle_chat\<close> without a call of the message handler, and every
  message that a run of \<open>handle_chat\<close> of the keyword crawler hands to the message handler
  contains one of the keywords.
\<close>

theorem keyword_filter_passes_only_matches:
  "(keyword_message_should_be_skipped kws m lo hi = False \<longleftrightarrow>
      (\<not> baseline_message_should_be_skipped m lo hi
       \<and> (\<exists>body. tm_message m = Some body \<and> (\<exists>k \<in> set kws. \<exists>ps ss. body = ps @ k @ ss))))
   \<and> (\<not> crawl_should_be_stopped (KeywordSearchCrawler kws) cs m lo hi
        \<and> keyword_message_should_be_skipped kws m lo hi
       \<longrightarrow> iter_messages (KeywordSearchCrawler kws) e chat_id lo hi nl (Yield m # rest) cs w
             script crawls =
           with_events [Fetched m]
             (iter_messages (KeywordSearchCrawler kws) e chat_id lo hi nl rest cs w script crawls))
   \<and> (handle_chat (KeywordSearchCrawler kws) e chat_id stream cs w script crawls =
         Inr (r, cs', w', script', crawls', trace)
       \<longrightarrow> (\<forall>message \<in> set (handled_messages trace).
              \<exists>body. tm_message message = Some body
                     \<and> (\<exists>k \<in> set kws. \<exists>ps ss. body = ps @ k @ ss)))"
proof (intro conjI impI ballI)
  show "keyword_message_should_be_skipped kws m lo hi = False \<longleftrightarrow>
      (\<not> baseline_message_should_be_skipped m lo hi
       \<and> (\<exists>body. tm_message m = Some body \<and> (\<exists>k \<in> set kws. \<exists>ps ss. body = ps @ k @ ss)))"
    by (rule keyword_skip_iff)
next
  assume "\<not> crawl_should_be_stopped (KeywordSearchCrawler kws) cs m lo hi
        \<and> keyword_message_should_be_skipped kws m lo hi"
  then show "iter_messages (KeywordSearchCrawler kws) e chat_id lo hi nl (Yield m # rest) cs w
             script crawls =
           with_events [Fetched m]
             (iter_messages (KeywordSearchCrawler kws) e chat_id lo hi nl rest cs w script crawls)"
    by (simp add: message_should_be_skipped_def)
next
  fix message
  assume run: "handle_chat (KeywordSearchCrawler kws) e chat_id stream cs w script crawls =
         Inr (r, cs', w', script', crawls', trace)"
    and h: "message \<in> set (handled_messages trace)"
  have base: "inherits_store (KeywordSearchCrawler kws)" by (simp add: inherits_store_def)
  from handle_chat_trace[OF base run] h
  have "message_should_be_skipped (KeywordSearchCrawler kws) cs message (min_date cs) (max_date cs)
          = Inr (False, cs)" by blast
  then have "keyword_message_should_be_skipped kws message (min_date cs) (max_date cs) = False"
    by (simp add: message_should_be_skipped_def)
  then show "\<exists>body. tm_message message = Some body \<and> (\<exists>k \<in> set kws. \<exists>ps ss. body = ps @ k @ ss)"
    using keyword_skip_iff by blast
qed

theorem keyword_filter_passes_only_matches_witness:
  "keyword_message_should_be_skipped [''abc''] message_with_text None (Some july_15) = False
   \<and> \<not> baseline_message_should_be_skipped message_with_text None (Some july_15)
   \<and> tm_message message_with_text = Some ''h1 abc''
   \<and> ''h1 abc'' = ''h1 '' @ ''abc'' @ []
   \<and> keyword_message_should_be_skipped [''abc''] unrelated_message None (Some july_15) = True
   \<and> \<not> baseline_message_should_be_skipped unrelated_message None (Some july_15)
   \<and> iter_messages (KeywordSearchCrawler [''abc'']) example_env 100 None (Some july_15) True
        [Yield unrelated_message, Yield message_with_text] fresh_crawl empty_world [] [] =
      with_events [Fetched unrelated_message]
        (iter_messages (KeywordSearchCrawler [''abc'']) example_env 100 None (Some july_15) True
           [Yield message_with_text] fresh_crawl empty_world [] [])
   \<and> handle_chat (KeywordSearchCrawler [''abc'']) example_env 100
        [Yield unrelated_message, Yield message_with_text] fresh_crawl empty_world [] [] =
      Inr (0, fresh_crawl\<lparr>chats_searched := [100], chats_to_search := []\<rparr>,
        empty_world\<lparr>chats := [100], messages := [stored_message]\<rparr>, [],
        [to_json (fresh_crawl\<lparr>chats_searched := [100], chats_to_search := []\<rparr>)],
        [Fetched unrelated_message, Fetched message_with_text,
         Handled message_with_text ''message stored without labels'',
         Persisted (to_json fresh_crawl),
         Persisted (to_json (fresh_crawl\<lparr>chats_searched := [100], chats_to_search := []\<rparr>))])
   \<and> handled_messages
        [Fetched unrelated_message, Fetched message_with_text,
         Handled message_with_text ''message stored without labels'',
         Persisted (to_json fresh_crawl),
         Persisted (to_json (fresh_crawl\<lparr>chats_searched := [100], chats_to_search := []\<rparr>))] =
       [message_with_text]
   \<and> (\<exists>body. tm_message message_with_text = Some body \<and> (\<exists>ps ss. body = ps @ ''abc'' @ ss))"
proof -
  let ?trace = "[Fetched unrelated_message, Fetched message_with_text,
         Handled message_with_text ''message stored without labels'',
         Persisted (to_json fresh_crawl),
         Persisted (to_json (fresh_crawl\<lparr>chats_searched := [100], chats_to_search := []\<rparr>))]"
  note inst = keyword_filter_passes_only_matches[where kws = "[''abc'']" and e = example_env and chat_id = 100
      and cs = fresh_crawl and w = empty_world and script = "[]" and crawls = "[]"
      and lo = None and hi = "Some july_15"]
  have b1: "\<not> baseline_message_should_be_skipped message_with_text None (Some july_15)"
    by (simp add: baseline_message_should_be_skipped_def message_with_text_def dt_less_def
          dt_fields_def july_15_def)
  have t1: "tm_message message_with_text = Some ''h1 abc''" by (simp add: message_with_text_def)
  have d1: "''h1 abc'' = ''h1 '' @ ''abc'' @ []" by simp
  from inst[where m = message_with_text] b1 t1 d1
  have k1: "keyword_message_should_be_skipped [''abc''] message_with_text None (Some july_15) = False"
    by (metis list.set_intros(1))
  have b2: "\<not> baseline_message_should_be_skipped unrelated_message None (Some july_15)"
    by (simp add: baseline_message_should_be_skipped_def unrelated_message_def dt_less_def
          dt_fields_def july_15_def)
  have k2: "keyword_message_should_be_skipped [''abc''] unrelated_message None (Some july_15) = True"
    by (simp add: keyword_message_should_be_skipped_def baseline_message_should_be_skipped_def
          unrelated_message_def dt_less_def dt_fields_def july_15_def)
  have s2: "\<not> crawl_should_be_stopped (KeywordSearchCrawler [''abc'']) fresh_crawl unrelated_message
              None (Some july_15)"
    by (simp add: crawl_should_be_stopped_def baseline_crawl_should_be_stopped_def)
  from inst[where m = unrelated_message and nl = True and rest = "[Yield message_with_text]"] s2 k2
  have i2: "iter_messages (KeywordSearchCrawler [''abc'']) example_env 100 None (Some july_15) True
        [Yield unrelated_message, Yield message_with_text] fresh_crawl empty_world [] [] =
      with_events [Fetched unrelated_message]
        (iter_messages (KeywordSearchCrawler [''abc'']) example_env 100 None (Some july_15) True
           [Yield message_with_text] fresh_crawl empty_world [] [])" by blast
  have run: "handle_chat (KeywordSearchCrawler [''abc'']) example_env 100
        [Yield unrelated_message, Yield message_with_text] fresh_crawl empty_world [] [] =
      Inr (0, fresh_crawl\<lparr>chats_searched := [100], chats_to_search := []\<rparr>,
        empty_world\<lparr>chats := [100], messages := [stored_message]\<rparr>, [],
        [to_json (fresh_crawl\<lparr>chats_searched := [100], chats_to_search := []\<rparr>)], ?trace)"
    by (simp add: run_defs keyword_message_should_be_skipped_def example_env_def
        unrelated_message_def message_with_text_def
        fresh_crawl_def empty_world_def july_15_def stored_message_def)
  have hm: "handled_messages ?trace = [message_with_text]" by simp
  from inst[where stream = "[Yield unrelated_message, Yield message_with_text]"
      and m = message_with_text] run hm
  have ex: "\<exists>body. tm_message message_with_text = Some body \<and> (\<exists>ps ss. body = ps @ ''abc'' @ ss)"
    by simp
  show ?thesis using k1 b1 t1 k2 b2 i2 run hm ex by simp
qed

end
